theory Spec2Isabelle
  imports Main "HOL-Library.AList"
begin

section \<open>The launch-configuration resource (aws/resource\_aws\_launch\_configuration.go)\<close>

text \<open>
  A shallow embedding of the resource: the schema as data, the values the host hands to
  the callbacks, the SDK structures, and the Create, Read and Delete callbacks with their
  conversion helpers. A Go panic and a returned error are both values of the result type;
  every call that leaves the process (through \<open>autoscalingconn\<close> or \<open>ec2conn\<close>) is
  appended to a trace.
\<close>

subsection \<open>Go values behind \<open>interface{}\<close>\<close>

text \<open>
  The dynamic types that occur in this file: \<open>nil\<close>, \<open>bool\<close>, \<open>int\<close>, \<open>int64\<close>,
  \<open>string\<close>, \<open>[]interface{}\<close>, \<open>*schema.Set\<close> (kept as the list its \<open>List()\<close>
  method returns) and \<open>map[string]interface{}\<close> (an association list).
\<close>

datatype val =
    VNil
  | VBool bool
  | VInt int
  | VInt64 int
  | VStr string
  | VList "val list"
  | VSet "val list"
  | VMap "(string \<times> val) list"

subsection \<open>Errors and panics\<close>

record Ebs =
  DeleteOnTermination :: "bool option"
  Encrypted :: "bool option"
  Iops :: "int option"
  SnapshotId :: "string option"
  VolumeSize :: "int option"
  VolumeType :: "string option"

record BlockDeviceMapping =
  DeviceName :: "string option"
  Ebs :: "Ebs option"
  NoDevice :: "bool option"
  VirtualName :: "string option"

record InstanceMonitoring =
  Enabled :: "bool option"

text \<open>\<open>autoscaling.LaunchConfiguration\<close>, the fields Read uses. Pointer fields are options;
  a slice of pointers is a list of options.\<close>

record LaunchConfiguration =
  LaunchConfigurationName :: "string option"
  ImageId :: "string option"
  InstanceType :: "string option"
  KeyName :: "string option"
  IamInstanceProfile :: "string option"
  EbsOptimized :: "bool option"
  SpotPrice :: "string option"
  Monitoring :: "InstanceMonitoring option"
  SecurityGroups :: "string list"
  AssociatePublicIpAddress :: "bool option"
  ClassicLinkVPCId :: "string option"
  ClassicLinkVPCSecurityGroups :: "string list"
  BlockDeviceMappings :: "BlockDeviceMapping option list"

text \<open>
  The error values: what the SDK returns (\<open>AwsErr code message\<close> for an
  \<open>awserr.Error\<close>, \<open>PlainErr\<close> for any other error), and one constructor for each
  \<open>fmt.Errorf\<close> of the file, carrying the arguments of its format string:
  \<^item> \<open>RootDeviceDeclaredAsEbs r\<close>: "Root device (r) declared as an 'ebs\_block\_device'.
    Use 'root\_block\_device' keyword."
  \<^item> \<open>NoRootDeviceName ami\<close>: "Expected to find a Root Device name for AMI (ami), but got none"
  \<^item> \<open>ErrorCreating e\<close>: "Error creating launch configuration: e"
  \<^item> \<open>ErrorRetrieving e\<close>: "Error retrieving launch configuration: e"
  \<^item> \<open>UnableToFind lcs\<close>: "Unable to find launch configuration: lcs"
\<close>

datatype error =
    AwsErr string string
  | PlainErr string
  | RootDeviceDeclaredAsEbs string
  | NoRootDeviceName string
  | ErrorCreating error
  | ErrorRetrieving error
  | UnableToFind "LaunchConfiguration list"

datatype panic = TypeAssertion | NilDereference | IndexOutOfRange

datatype failure = Panic panic | Failed error

definition andThen :: "failure + 'a \<Rightarrow> ('a \<Rightarrow> failure + 'b) \<Rightarrow> failure + 'b" where
  "andThen m f = (case m of Inl e \<Rightarrow> Inl e | Inr x \<Rightarrow> f x)"

subsection \<open>Type assertions and map reads\<close>

text \<open>\<open>v.(T)\<close> panics unless the dynamic type of \<open>v\<close> is \<open>T\<close>; \<open>v, ok := x.(T)\<close> yields
  the zero value and \<open>false\<close> instead. \<open>m[k]\<close> on a missing key is \<open>nil\<close>.\<close>

definition assertString :: "val \<Rightarrow> failure + string" where
  "assertString v = (case v of VStr s \<Rightarrow> Inr s | _ \<Rightarrow> Inl (Panic TypeAssertion))"

definition assertBool :: "val \<Rightarrow> failure + bool" where
  "assertBool v = (case v of VBool b \<Rightarrow> Inr b | _ \<Rightarrow> Inl (Panic TypeAssertion))"

definition assertList :: "val \<Rightarrow> failure + val list" where
  "assertList v = (case v of VList xs \<Rightarrow> Inr xs | _ \<Rightarrow> Inl (Panic TypeAssertion))"

definition assertSetList :: "val \<Rightarrow> failure + val list" where
  \<comment> \<open>\<open>v.(*schema.Set).List()\<close>\<close>
  "assertSetList v = (case v of VSet xs \<Rightarrow> Inr xs | _ \<Rightarrow> Inl (Panic TypeAssertion))"

definition assertMap :: "val \<Rightarrow> failure + (string \<times> val) list" where
  "assertMap v = (case v of VMap m \<Rightarrow> Inr m | _ \<Rightarrow> Inl (Panic TypeAssertion))"

definition index :: "(string \<times> val) list \<Rightarrow> string \<Rightarrow> val" where
  "index m k = (case map_of m k of Some v \<Rightarrow> v | None \<Rightarrow> VNil)"

definition okString :: "val \<Rightarrow> string \<times> bool" where
  "okString v = (case v of VStr s \<Rightarrow> (s, True) | _ \<Rightarrow> ([], False))"

definition okBool :: "val \<Rightarrow> bool \<times> bool" where
  "okBool v = (case v of VBool b \<Rightarrow> (b, True) | _ \<Rightarrow> (False, False))"

definition okInt :: "val \<Rightarrow> int \<times> bool" where
  "okInt v = (case v of VInt n \<Rightarrow> (n, True) | _ \<Rightarrow> (0, False))"

subsection \<open>The remote side and the helpers defined elsewhere in the repository\<close>

text \<open>\<open>CreateLaunchConfigurationInput\<close>, the request Create fills in.\<close>

record CreateLaunchConfigurationInput =
  optName :: "string option"
  optImageId :: "string option"
  optInstanceType :: "string option"
  optEbsOptimized :: "bool option"
  optUserData :: "string option"
  optInstanceMonitoring :: "InstanceMonitoring option"
  optIamInstanceProfile :: "string option"
  optPlacementTenancy :: "string option"
  optAssociatePublicIpAddress :: "bool option"
  optKeyName :: "string option"
  optSpotPrice :: "string option"
  optSecurityGroups :: "string list option"
  optClassicLinkVPCId :: "string option"
  optClassicLinkVPCSecurityGroups :: "string list option"
  optBlockDeviceMappings :: "BlockDeviceMapping option list option"

text \<open>Modelled from the spec: the helper \<open>fetchRootDeviceName(ami, ec2conn)\<close> is defined
  in another file of the repository. The spec describes it as an external lookup of the
  image's metadata through the provider SDK, so each invocation is recorded as a call that
  leaves the process (\<open>FetchRootDeviceName ami\<close>), next to the three calls this file makes
  through \<open>autoscalingconn\<close>; what it returns is a parameter (\<open>env\<close> below).\<close>

datatype call =
    FetchRootDeviceName string
  | CreateLaunchConfiguration CreateLaunchConfigurationInput
  | DescribeLaunchConfigurations "string list"
  | DeleteLaunchConfiguration string

type_synonym trace = "call list"

text \<open>
  What this file takes from outside, as parameters. The answer of the remote side to a
  call may depend on every call made before it (the trace). \<open>fetchRootDeviceName\<close>,
  \<open>isAWSErr\<close>, \<open>base64Encode\<close> and \<open>expandStringList\<close> are functions of the repository
  that live in other files; \<open>UniqueId\<close>, \<open>PrefixedUniqueId\<close> and the retry window belong
  to the host library. \<open>attemptsWithin env secs\<close> is the number of further attempts that
  \<open>resource.Retry\<close> fits into a window of \<open>secs\<close> seconds after its first one.
\<close>

record env =
  fetchRootDeviceName :: "trace \<Rightarrow> string \<Rightarrow> error + string option"
  remoteCreate :: "trace \<Rightarrow> CreateLaunchConfigurationInput \<Rightarrow> error option"
  remoteDescribe :: "trace \<Rightarrow> string list \<Rightarrow> error + LaunchConfiguration list"
  remoteDelete :: "trace \<Rightarrow> string \<Rightarrow> error option"
  isAWSErr :: "error \<Rightarrow> string \<Rightarrow> string \<Rightarrow> bool"
  base64Encode :: "string \<Rightarrow> string"
  expandStringList :: "val list \<Rightarrow> string list"
  UniqueId :: "string"
  PrefixedUniqueId :: "string \<Rightarrow> string"
  attemptsWithin :: "nat \<Rightarrow> nat"
  setError :: "string \<Rightarrow> val \<Rightarrow> error option"

text \<open>An instance of \<open>isAWSErr\<close> for the examples: the error is an \<open>awserr.Error\<close> with
  the given code whose message contains the given fragment.\<close>

fun Contains :: "string \<Rightarrow> string \<Rightarrow> bool" where
  "Contains [] sub = (sub = [])"
| "Contains (c # cs) sub = (take (length sub) (c # cs) = sub \<or> Contains cs sub)"

fun codeAndMessage :: "error \<Rightarrow> string \<Rightarrow> string \<Rightarrow> bool" where
  "codeAndMessage (AwsErr c m) code message = (c = code \<and> Contains m message)"
| "codeAndMessage _ code message = False"

subsection \<open>The schema\<close>

text \<open>
  \<open>schema.Schema\<close> as data: the value type, the settings written in the source, and the
  element (\<open>Elem\<close>) of a list or set. The validation, state and hash functions
  (\<open>ValidateFunc\<close>, \<open>StateFunc\<close>, \<open>Set\<close>) are not part of the model.
\<close>

datatype ValueType = TypeBool | TypeInt | TypeString | TypeList | TypeSet

datatype setting =
    Optional
  | Required
  | Computed
  | ForceNew
  | Default val
  | MaxItems nat
  | ConflictsWith "string list"
  | Deprecated

datatype Schema = Schema ValueType "setting list" Elem
and Elem = NoElem | ElemSchema Schema | ElemResource "(string \<times> Schema) list"

fun Type :: "Schema \<Rightarrow> ValueType" where
  "Type (Schema t ss e) = t"

fun settings :: "Schema \<Rightarrow> setting list" where
  "settings (Schema t ss e) = ss"

fun nested :: "Schema \<Rightarrow> (string \<times> Schema) list" where
  "nested (Schema t ss (ElemResource fs)) = fs"
| "nested (Schema t ss e) = []"

definition has :: "setting \<Rightarrow> Schema \<Rightarrow> bool" where
  "has st s = (st \<in> set (settings s))"

definition ebsSchema :: "(string \<times> Schema) list" where
  \<comment> \<open>the \<open>ebs\<close> block of \<open>block_device_mapping\<close>\<close>
  "ebsSchema =
     [(''delete_on_termination'', Schema TypeBool [Optional, Default (VBool True), ForceNew] NoElem),
      (''iops'', Schema TypeInt [Optional, Computed, ForceNew] NoElem),
      (''snapshot_id'', Schema TypeString [Optional, Computed, ForceNew] NoElem),
      (''volume_size'', Schema TypeInt [Optional, Computed, ForceNew] NoElem),
      (''volume_type'', Schema TypeString [Optional, Computed, ForceNew] NoElem),
      (''encrypted'', Schema TypeBool [Optional, Computed, ForceNew] NoElem)]"

definition blockDeviceMappingSchema :: "(string \<times> Schema) list" where
  "blockDeviceMappingSchema =
     [(''device_name'', Schema TypeString [Optional, ForceNew] NoElem),
      (''virtual_name'', Schema TypeString [Optional, ForceNew] NoElem),
      (''no_device'', Schema TypeBool [Optional, ForceNew] NoElem),
      (''is_root_device'', Schema TypeBool [Optional, ForceNew] NoElem),
      (''ebs'', Schema TypeList [MaxItems 1, Optional, ForceNew] (ElemResource ebsSchema))]"

definition ebsBlockDeviceSchema :: "(string \<times> Schema) list" where
  "ebsBlockDeviceSchema =
     [(''device_name'', Schema TypeString [Required, ForceNew] NoElem),
      (''delete_on_termination'', Schema TypeBool [Optional, Default (VBool True), ForceNew] NoElem),
      (''iops'', Schema TypeInt [Optional, Computed, ForceNew] NoElem),
      (''snapshot_id'', Schema TypeString [Optional, Computed, ForceNew] NoElem),
      (''volume_size'', Schema TypeInt [Optional, Computed, ForceNew] NoElem),
      (''volume_type'', Schema TypeString [Optional, Computed, ForceNew] NoElem),
      (''encrypted'', Schema TypeBool [Optional, Computed, ForceNew] NoElem)]"

definition ephemeralBlockDeviceSchema :: "(string \<times> Schema) list" where
  "ephemeralBlockDeviceSchema =
     [(''device_name'', Schema TypeString [Required] NoElem),
      (''virtual_name'', Schema TypeString [Required] NoElem)]"

definition rootBlockDeviceSchema :: "(string \<times> Schema) list" where
  "rootBlockDeviceSchema =
     [(''delete_on_termination'', Schema TypeBool [Optional, Default (VBool True), ForceNew] NoElem),
      (''iops'', Schema TypeInt [Optional, Computed, ForceNew] NoElem),
      (''volume_size'', Schema TypeInt [Optional, Computed, ForceNew] NoElem),
      (''volume_type'', Schema TypeString [Optional, Computed, ForceNew] NoElem)]"

definition resourceSchema :: "(string \<times> Schema) list" where
  \<comment> \<open>the \<open>Schema\<close> field of \<open>resourceAwsLaunchConfiguration()\<close>\<close>
  "resourceSchema =
     [(''name'', Schema TypeString [Optional, Computed, ForceNew, ConflictsWith [''name_prefix'']] NoElem),
      (''name_prefix'', Schema TypeString [Optional, ForceNew] NoElem),
      (''image_id'', Schema TypeString [Required, ForceNew] NoElem),
      (''instance_type'', Schema TypeString [Required, ForceNew] NoElem),
      (''iam_instance_profile'', Schema TypeString [Optional, ForceNew] NoElem),
      (''key_name'', Schema TypeString [Optional, Computed, ForceNew] NoElem),
      (''user_data'', Schema TypeString [Optional, ForceNew] NoElem),
      (''security_groups'',
         Schema TypeSet [Optional, ForceNew] (ElemSchema (Schema TypeString [] NoElem))),
      (''vpc_classic_link_id'', Schema TypeString [Optional, ForceNew] NoElem),
      (''vpc_classic_link_security_groups'',
         Schema TypeSet [Optional, ForceNew] (ElemSchema (Schema TypeString [] NoElem))),
      (''associate_public_ip_address'',
         Schema TypeBool [Optional, ForceNew, Default (VBool False)] NoElem),
      (''spot_price'', Schema TypeString [Optional, ForceNew] NoElem),
      (''ebs_optimized'', Schema TypeBool [Optional, ForceNew, Computed] NoElem),
      (''placement_tenancy'', Schema TypeString [Optional, ForceNew] NoElem),
      (''enable_monitoring'', Schema TypeBool [Optional, ForceNew, Default (VBool True)] NoElem),
      (''block_device_mapping'',
         Schema TypeSet
           [Optional, ForceNew,
            ConflictsWith [''ebs_block_device'', ''ephemeral_block_device'', ''root_block_device'']]
           (ElemResource blockDeviceMappingSchema)),
      (''ebs_block_device'',
         Schema TypeSet [Optional, Computed, Deprecated] (ElemResource ebsBlockDeviceSchema)),
      (''ephemeral_block_device'',
         Schema TypeSet [Optional, ForceNew, Deprecated] (ElemResource ephemeralBlockDeviceSchema)),
      (''root_block_device'',
         Schema TypeList [Optional, Computed, MaxItems 1, Deprecated]
           (ElemResource rootBlockDeviceSchema))]"

text \<open>An attribute the configuration can set is one marked \<open>Optional\<close> or \<open>Required\<close>.\<close>

definition userSettable :: "Schema \<Rightarrow> bool" where
  "userSettable s = (has Optional s \<or> has Required s)"

text \<open>
  \<open>attributes pre fs\<close> lists every attribute of the fields \<open>fs\<close>, at any depth, with its
  path (the names of the enclosing blocks first) and the schemas of the blocks around it.
\<close>

fun attributes :: "string list \<Rightarrow> Schema list \<Rightarrow> (string \<times> Schema) list
    \<Rightarrow> (string list \<times> Schema list \<times> Schema) list"
and attributesIn :: "string list \<Rightarrow> Schema list \<Rightarrow> Schema \<Rightarrow> (string list \<times> Schema list \<times> Schema) list"
and attributesElem :: "string list \<Rightarrow> Schema list \<Rightarrow> Elem \<Rightarrow> (string list \<times> Schema list \<times> Schema) list"
where
  "attributes pre up [] = []"
| "attributes pre up ((k, s) # fs) =
     (pre @ [k], up, s) # attributesIn (pre @ [k]) (up @ [s]) s @ attributes pre up fs"
| "attributesIn pre up (Schema t ss e) = attributesElem pre up e"
| "attributesElem pre up NoElem = []"
| "attributesElem pre up (ElemSchema s) = []"
| "attributesElem pre up (ElemResource fs) = attributes pre up fs"

text \<open>
  How an attribute comes to force a new resource: it is marked \<open>ForceNew\<close>, or a block
  around it is, or it is a \<open>Computed\<close> block each of whose own attributes is marked
  \<open>ForceNew\<close>.
\<close>

definition forcesNew :: "string list \<times> Schema list \<times> Schema \<Rightarrow> bool" where
  "forcesNew a =
     (case a of (path, up, s) \<Rightarrow>
        has ForceNew s \<or> list_ex (has ForceNew) up
        \<or> (has Computed s \<and> nested s \<noteq> [] \<and> list_all (\<lambda>(k, c). has ForceNew c) (nested s)))"

definition notMarkedForceNew :: "(string \<times> Schema) list \<Rightarrow> string list list" where
  "notMarkedForceNew fs =
     map fst (filter (\<lambda>(path, up, s). userSettable s \<and> \<not> has ForceNew s) (attributes [] [] fs))"

subsection \<open>\<open>schema.ResourceData\<close>\<close>

record ResourceData =
  rd_id :: string
  rd_attrs :: "(string \<times> val) list"

definition d_Id :: "ResourceData \<Rightarrow> string" where
  "d_Id d = rd_id d"

definition d_SetId :: "string \<Rightarrow> ResourceData \<Rightarrow> ResourceData" where
  "d_SetId v d = d\<lparr>rd_id := v\<rparr>"

text \<open>
  The host hands the callbacks values of the types the schema declares: \<open>conforms s v\<close>
  says that \<open>v\<close> is such a value for the attribute \<open>s\<close>. An element of a block is a map
  that has every attribute of the block.
\<close>

fun conforms :: "Schema \<Rightarrow> val \<Rightarrow> bool"
and conformsElem :: "Elem \<Rightarrow> val \<Rightarrow> bool"
and conformsFields :: "(string \<times> Schema) list \<Rightarrow> (string \<times> val) list \<Rightarrow> bool"
where
  "conforms (Schema t ss e) v =
     (case t of
        TypeBool \<Rightarrow> (case v of VBool b \<Rightarrow> True | _ \<Rightarrow> False)
      | TypeInt \<Rightarrow> (case v of VInt n \<Rightarrow> True | _ \<Rightarrow> False)
      | TypeString \<Rightarrow> (case v of VStr x \<Rightarrow> True | _ \<Rightarrow> False)
      | TypeList \<Rightarrow> (case v of VList xs \<Rightarrow> list_all (conformsElem e) xs | _ \<Rightarrow> False)
      | TypeSet \<Rightarrow> (case v of VSet xs \<Rightarrow> list_all (conformsElem e) xs | _ \<Rightarrow> False))"
| "conformsElem NoElem v = True"
| "conformsElem (ElemSchema s) v = conforms s v"
| "conformsElem (ElemResource fs) v = (case v of VMap m \<Rightarrow> conformsFields fs m | _ \<Rightarrow> False)"
| "conformsFields [] m = True"
| "conformsFields ((k, s) # fs) m =
     ((case map_of m k of Some v \<Rightarrow> conforms s v | None \<Rightarrow> False) \<and> conformsFields fs m)"

definition zeroValue :: "ValueType \<Rightarrow> val" where
  "zeroValue t =
     (case t of TypeBool \<Rightarrow> VBool False | TypeInt \<Rightarrow> VInt 0 | TypeString \<Rightarrow> VStr []
      | TypeList \<Rightarrow> VList [] | TypeSet \<Rightarrow> VSet [])"

definition isZero :: "val \<Rightarrow> bool" where
  "isZero v =
     (case v of VNil \<Rightarrow> True | VBool b \<Rightarrow> \<not> b | VInt n \<Rightarrow> n = 0 | VInt64 n \<Rightarrow> n = 0
      | VStr x \<Rightarrow> x = [] | VList xs \<Rightarrow> xs = [] | VSet xs \<Rightarrow> xs = [] | VMap m \<Rightarrow> False)"

text \<open>
  \<open>d.Get(k)\<close> is the stored value, or the zero value of the attribute's type when none is
  stored; \<open>d.GetOk(k)\<close> adds whether the value differs from the zero value. \<open>d.Set(k, v)\<close>
  stores the value (\<open>nil\<close> clears the attribute) unless the host refuses it.
\<close>

definition d_Get :: "ResourceData \<Rightarrow> string \<Rightarrow> val" where
  "d_Get d k =
     (case map_of (rd_attrs d) k of
        Some v \<Rightarrow> v
      | None \<Rightarrow> (case map_of resourceSchema k of Some s \<Rightarrow> zeroValue (Type s) | None \<Rightarrow> VNil))"

definition d_GetOk :: "ResourceData \<Rightarrow> string \<Rightarrow> val \<times> bool" where
  "d_GetOk d k = (d_Get d k, \<not> isZero (d_Get d k))"

definition d_Set :: "env \<Rightarrow> string \<Rightarrow> val \<Rightarrow> ResourceData \<Rightarrow> error option \<times> ResourceData" where
  "d_Set env k v d =
     (case setError env k v of
        Some e \<Rightarrow> (Some e, d)
      | None \<Rightarrow>
          (None, d\<lparr>rd_attrs := (if v = VNil then AList.delete k (rd_attrs d)
                                else AList.update k v (rd_attrs d))\<rparr>))"

definition conformsData :: "ResourceData \<Rightarrow> bool" where
  "conformsData d = list_all (\<lambda>(k, s). conforms s (d_Get d k)) resourceSchema"

subsection \<open>EBS descriptors\<close>

text \<open>The five guarded assignments that \<open>expandAutoscalingEbs\<close> and the loops of Create
  over \<open>ebs_block_device\<close> and \<open>root_block_device\<close> each spell out.\<close>

definition setSnapshotId :: "(string \<times> val) list \<Rightarrow> Ebs \<Rightarrow> Ebs" where
  "setSnapshotId m ebs =
     (case okString (index m ''snapshot_id'') of
        (v, ok) \<Rightarrow> if ok \<and> v \<noteq> [] then ebs\<lparr>SnapshotId := Some v\<rparr> else ebs)"

definition setEncrypted :: "(string \<times> val) list \<Rightarrow> Ebs \<Rightarrow> Ebs" where
  "setEncrypted m ebs =
     (case okBool (index m ''encrypted'') of
        (v, ok) \<Rightarrow> if ok \<and> v then ebs\<lparr>Encrypted := Some v\<rparr> else ebs)"

definition setVolumeSize :: "(string \<times> val) list \<Rightarrow> Ebs \<Rightarrow> Ebs" where
  "setVolumeSize m ebs =
     (case okInt (index m ''volume_size'') of
        (v, ok) \<Rightarrow> if ok \<and> v \<noteq> 0 then ebs\<lparr>VolumeSize := Some v\<rparr> else ebs)"

definition setVolumeType :: "(string \<times> val) list \<Rightarrow> Ebs \<Rightarrow> Ebs" where
  "setVolumeType m ebs =
     (case okString (index m ''volume_type'') of
        (v, ok) \<Rightarrow> if ok \<and> v \<noteq> [] then ebs\<lparr>VolumeType := Some v\<rparr> else ebs)"

definition setIops :: "(string \<times> val) list \<Rightarrow> Ebs \<Rightarrow> Ebs" where
  "setIops m ebs =
     (case okInt (index m ''iops'') of
        (v, ok) \<Rightarrow> if ok \<and> v > 0 then ebs\<lparr>Iops := Some v\<rparr> else ebs)"

definition newEbs :: "bool \<Rightarrow> Ebs" where
  \<comment> \<open>\<open>&autoscaling.Ebs{DeleteOnTermination: aws.Bool(b)}\<close>\<close>
  "newEbs b =
     \<lparr>DeleteOnTermination = Some b, Encrypted = None, Iops = None, SnapshotId = None,
      VolumeSize = None, VolumeType = None\<rparr>"

definition expandAutoscalingEbs :: "val list \<Rightarrow> failure + Ebs option" where
  "expandAutoscalingEbs in' =
     (case in' of
        [] \<Rightarrow> Inr None
      | x # rest \<Rightarrow>
          if x = VNil then Inr None
          else andThen (assertMap x) (\<lambda>m.
               andThen (assertBool (index m ''delete_on_termination'')) (\<lambda>b.
               Inr (Some (setIops m (setVolumeType m (setVolumeSize m (setEncrypted m
                      (setSnapshotId m (newEbs b))))))))))"

definition flattenAutoscalingEbs :: "Ebs option \<Rightarrow> val list" where
  "flattenAutoscalingEbs in' =
     (case in' of
        None \<Rightarrow> []
      | Some e \<Rightarrow>
          (let m0 = [];
               m1 = (case DeleteOnTermination e of Some b \<Rightarrow> AList.update ''delete_on_termination'' (VBool b) m0 | None \<Rightarrow> m0);
               m2 = (case Encrypted e of Some b \<Rightarrow> AList.update ''encrypted'' (VBool b) m1 | None \<Rightarrow> m1);
               m3 = (case Iops e of Some n \<Rightarrow> AList.update ''iops'' (VInt64 n) m2 | None \<Rightarrow> m2);
               m4 = (case SnapshotId e of Some x \<Rightarrow> AList.update ''snapshot_id'' (VStr x) m3 | None \<Rightarrow> m3);
               m5 = (case VolumeSize e of Some n \<Rightarrow> AList.update ''volume_size'' (VInt64 n) m4 | None \<Rightarrow> m4);
               m6 = (case VolumeType e of Some x \<Rightarrow> AList.update ''volume_type'' (VStr x) m5 | None \<Rightarrow> m5)
           in [VMap m6]))"

subsection \<open>Block-device mappings: to the SDK's form and back\<close>

text \<open>\<open>p.f = v\<close> through a pointer \<open>p\<close>: a nil pointer panics.\<close>

definition assign :: "'a option \<Rightarrow> ('a \<Rightarrow> 'a) \<Rightarrow> failure + 'a option" where
  "assign p upd = (case p of None \<Rightarrow> Inl (Panic NilDereference) | Some x \<Rightarrow> Inr (Some (upd x)))"

definition at :: "'a list \<Rightarrow> nat \<Rightarrow> failure + 'a" where
  "at xs i = (if i < length xs then Inr (xs ! i) else Inl (Panic IndexOutOfRange))"

text \<open>The body of the loop of \<open>expandAutoscalingBlockDeviceMappings\<close>, one definition for
  each \<open>if\<close>; \<open>p\<close> is \<open>out[i]\<close>. In the first, the lookup is made (and traced), then its result
  is assigned through \<open>out[i]\<close>, then its error is looked at.\<close>

definition expandIsRootDevice ::
  "env \<Rightarrow> string \<Rightarrow> (string \<times> val) list \<Rightarrow> BlockDeviceMapping option \<Rightarrow> trace
     \<Rightarrow> (failure + BlockDeviceMapping option) \<times> trace" where
  "expandIsRootDevice env amiId m p tr =
     (case map_of m ''is_root_device'' of
        None \<Rightarrow> (Inr p, tr)
      | Some v \<Rightarrow>
          (case assertBool v of
             Inl f \<Rightarrow> (Inl f, tr)
           | Inr isRoot \<Rightarrow>
               if isRoot then
                 (let r = fetchRootDeviceName env tr amiId;
                      tr' = tr @ [FetchRootDeviceName amiId]
                  in case assign p (\<lambda>b. b\<lparr>DeviceName := (case r of Inr n \<Rightarrow> n | Inl e \<Rightarrow> None)\<rparr>) of
                       Inl f \<Rightarrow> (Inl f, tr')
                     | Inr p' \<Rightarrow> (case r of Inl e \<Rightarrow> (Inl (Failed e), tr') | Inr n \<Rightarrow> (Inr p', tr')))
               else (Inr p, tr)))"

definition expandDeviceName ::
  "(string \<times> val) list \<Rightarrow> BlockDeviceMapping option \<Rightarrow> failure + BlockDeviceMapping option" where
  "expandDeviceName m p =
     (case map_of m ''device_name'' of
        None \<Rightarrow> Inr p
      | Some v \<Rightarrow> andThen (assertString v) (\<lambda>x. assign p (\<lambda>b. b\<lparr>DeviceName := Some x\<rparr>)))"

definition expandEbs ::
  "(string \<times> val) list \<Rightarrow> BlockDeviceMapping option \<Rightarrow> failure + BlockDeviceMapping option" where
  "expandEbs m p =
     (case map_of m ''ebs'' of
        None \<Rightarrow> Inr p
      | Some v \<Rightarrow> andThen (assertList v) (\<lambda>l. andThen (expandAutoscalingEbs l) (\<lambda>e.
                    assign p (\<lambda>b. b\<lparr>Ebs := e\<rparr>))))"

definition expandNoDevice ::
  "(string \<times> val) list \<Rightarrow> BlockDeviceMapping option \<Rightarrow> failure + BlockDeviceMapping option" where
  "expandNoDevice m p =
     (case map_of m ''no_device'' of
        None \<Rightarrow> Inr p
      | Some v \<Rightarrow> andThen (assertBool v) (\<lambda>x. assign p (\<lambda>b. b\<lparr>NoDevice := Some x\<rparr>)))"

definition expandVirtualName ::
  "(string \<times> val) list \<Rightarrow> BlockDeviceMapping option \<Rightarrow> failure + BlockDeviceMapping option" where
  "expandVirtualName m p =
     (case map_of m ''virtual_name'' of
        None \<Rightarrow> Inr p
      | Some v \<Rightarrow> andThen (assertString v) (\<lambda>x. assign p (\<lambda>b. b\<lparr>VirtualName := Some x\<rparr>)))"

definition expandEntry ::
  "env \<Rightarrow> string \<Rightarrow> val \<Rightarrow> BlockDeviceMapping option \<Rightarrow> trace
     \<Rightarrow> (failure + BlockDeviceMapping option) \<times> trace" where
  "expandEntry env amiId bdm p tr =
     (case assertMap bdm of
        Inl f \<Rightarrow> (Inl f, tr)
      | Inr m \<Rightarrow>
          (case expandIsRootDevice env amiId m p tr of
             (Inl f, tr') \<Rightarrow> (Inl f, tr')
           | (Inr p1, tr') \<Rightarrow>
               (andThen (expandDeviceName m p1) (\<lambda>p2.
                andThen (expandEbs m p2) (\<lambda>p3.
                andThen (expandNoDevice m p3) (\<lambda>p4.
                expandVirtualName m p4))), tr')))"

fun expandLoop ::
  "env \<Rightarrow> string \<Rightarrow> val list \<Rightarrow> nat \<Rightarrow> BlockDeviceMapping option list \<Rightarrow> trace
     \<Rightarrow> (failure + BlockDeviceMapping option list) \<times> trace" where
  "expandLoop env amiId [] i out tr = (Inr out, tr)"
| "expandLoop env amiId (bdm # rest) i out tr =
     (case at out i of
        Inl f \<Rightarrow> (Inl f, tr)
      | Inr p \<Rightarrow>
          (case expandEntry env amiId bdm p tr of
             (Inl f, tr') \<Rightarrow> (Inl f, tr')
           | (Inr p', tr') \<Rightarrow> expandLoop env amiId rest (Suc i) (out[i := p']) tr'))"

definition expandAutoscalingBlockDeviceMappings ::
  "env \<Rightarrow> val list \<Rightarrow> string \<Rightarrow> trace
     \<Rightarrow> (failure + BlockDeviceMapping option list option) \<times> trace" where
  "expandAutoscalingBlockDeviceMappings env in' amiId tr =
     (case in' of
        [] \<Rightarrow> (Inr None, tr)
      | x # rest \<Rightarrow>
          if x = VNil then (Inr None, tr)
          else (case expandLoop env amiId in' 0 (replicate (length in') None) tr of
                  (Inl f, tr') \<Rightarrow> (Inl f, tr')
                | (Inr out, tr') \<Rightarrow> (Inr (Some out), tr')))"

text \<open>The body of the loop of \<open>flattenAutoscalingBlockDeviceMappings\<close>. The fetched root
  device name is dereferenced as it comes.\<close>

definition flattenRest :: "BlockDeviceMapping \<Rightarrow> (string \<times> val) list \<Rightarrow> (string \<times> val) list" where
  "flattenRest bdm m =
     (let m1 = (case Ebs bdm of Some e \<Rightarrow> AList.update ''ebs'' (VList (flattenAutoscalingEbs (Some e))) m | None \<Rightarrow> m);
          m2 = (case NoDevice bdm of Some b \<Rightarrow> AList.update ''no_device'' (VBool b) m1 | None \<Rightarrow> m1);
          m3 = (case VirtualName bdm of Some x \<Rightarrow> AList.update ''virtual_name'' (VStr x) m2 | None \<Rightarrow> m2)
      in m3)"

definition flattenEntry ::
  "env \<Rightarrow> string \<Rightarrow> BlockDeviceMapping option \<Rightarrow> trace \<Rightarrow> (failure + (string \<times> val) list) \<times> trace" where
  "flattenEntry env amiId p tr =
     (case p of
        None \<Rightarrow> (Inl (Panic NilDereference), tr)
      | Some bdm \<Rightarrow>
          (case DeviceName bdm of
             None \<Rightarrow> (Inr (flattenRest bdm []), tr)
           | Some name \<Rightarrow>
               (let tr' = tr @ [FetchRootDeviceName amiId] in
                case fetchRootDeviceName env tr amiId of
                  Inl e \<Rightarrow> (Inl (Failed e), tr')
                | Inr None \<Rightarrow> (Inl (Panic NilDereference), tr')
                | Inr (Some rootDeviceName) \<Rightarrow>
                    (Inr (flattenRest bdm
                       (AList.update ''is_root_device'' (VBool (rootDeviceName = name))
                          (AList.update ''device_name'' (VStr name) []))), tr'))))"

fun flattenLoop ::
  "env \<Rightarrow> string \<Rightarrow> BlockDeviceMapping option list \<Rightarrow> trace \<Rightarrow> (failure + val list) \<times> trace" where
  "flattenLoop env amiId [] tr = (Inr [], tr)"
| "flattenLoop env amiId (p # rest) tr =
     (case flattenEntry env amiId p tr of
        (Inl f, tr') \<Rightarrow> (Inl f, tr')
      | (Inr m, tr') \<Rightarrow>
          (case flattenLoop env amiId rest tr' of
             (Inl f, tr'') \<Rightarrow> (Inl f, tr'')
           | (Inr ms, tr'') \<Rightarrow> (Inr (VMap m # ms), tr'')))"

definition flattenAutoscalingBlockDeviceMappings ::
  "env \<Rightarrow> BlockDeviceMapping option list \<Rightarrow> string \<Rightarrow> trace \<Rightarrow> (failure + val list) \<times> trace" where
  "flattenAutoscalingBlockDeviceMappings env in' amiId tr =
     (if in' = [] then (Inr [], tr) else flattenLoop env amiId in' tr)"

subsection \<open>Reading the block devices back into the deprecated fields\<close>

text \<open>The map that \<open>readBlockDevicesFromLaunchConfiguration\<close> returns has the three keys
  \<open>ebs\<close>, \<open>ephemeral\<close> and \<open>root\<close>; a nil map is \<open>None\<close>.\<close>

record blockDevices =
  bd_ebs :: "(string \<times> val) list list"
  bd_ephemeral :: "(string \<times> val) list list"
  bd_root :: "(string \<times> val) list option"

definition ebsField ::
  "BlockDeviceMapping \<Rightarrow> (Ebs \<Rightarrow> 'a option) \<Rightarrow> ('a \<Rightarrow> val) \<Rightarrow> string
     \<Rightarrow> (string \<times> val) list \<Rightarrow> (string \<times> val) list" where
  \<comment> \<open>\<open>if bdm.Ebs != nil && bdm.Ebs.F != nil { bd[k] = *bdm.Ebs.F }\<close>\<close>
  "ebsField bdm sel mk k bd =
     (case Ebs bdm of
        None \<Rightarrow> bd
      | Some e \<Rightarrow> (case sel e of None \<Rightarrow> bd | Some x \<Rightarrow> AList.update k (mk x) bd))"

definition readEntry :: "string \<Rightarrow> BlockDeviceMapping \<Rightarrow> blockDevices \<Rightarrow> blockDevices" where
  "readEntry rootDeviceName bdm acc =
     (let bd = ebsField bdm Iops VInt64 ''iops''
                (ebsField bdm VolumeType VStr ''volume_type''
                  (ebsField bdm VolumeSize VInt64 ''volume_size''
                    (ebsField bdm DeleteOnTermination VBool ''delete_on_termination'' [])))
      in if DeviceName bdm \<noteq> None \<and> DeviceName bdm = Some rootDeviceName
         then acc\<lparr>bd_root := Some bd\<rparr>
         else
           (let bd1 = ebsField bdm Encrypted VBool ''encrypted'' bd;
                bd2 = (case DeviceName bdm of
                         Some n \<Rightarrow> AList.update ''device_name'' (VStr n) bd1 | None \<Rightarrow> bd1)
            in case VirtualName bdm of
                 Some v \<Rightarrow>
                   acc\<lparr>bd_ephemeral := bd_ephemeral acc @ [AList.update ''virtual_name'' (VStr v) bd2]\<rparr>
               | None \<Rightarrow>
                   acc\<lparr>bd_ebs := bd_ebs acc @ [ebsField bdm SnapshotId VStr ''snapshot_id'' bd2]\<rparr>))"

text \<open>What the loop records of one entry, by the place it puts it: \<open>rootRecord\<close> under
  the key \<open>root\<close>, \<open>ephemeralRecord\<close> in the list \<open>ephemeral\<close>, \<open>ebsRecord\<close> in the list
  \<open>ebs\<close>. These name the three paths through \<open>readEntry\<close> for the statements below.\<close>

definition rootRecord :: "BlockDeviceMapping \<Rightarrow> (string \<times> val) list" where
  "rootRecord bdm =
     ebsField bdm Iops VInt64 ''iops''
       (ebsField bdm VolumeType VStr ''volume_type''
         (ebsField bdm VolumeSize VInt64 ''volume_size''
           (ebsField bdm DeleteOnTermination VBool ''delete_on_termination'' [])))"

definition deviceRecord :: "BlockDeviceMapping \<Rightarrow> (string \<times> val) list" where
  "deviceRecord bdm =
     (case DeviceName bdm of
        Some n \<Rightarrow> AList.update ''device_name'' (VStr n)
                    (ebsField bdm Encrypted VBool ''encrypted'' (rootRecord bdm))
      | None \<Rightarrow> ebsField bdm Encrypted VBool ''encrypted'' (rootRecord bdm))"

definition ephemeralRecord :: "BlockDeviceMapping \<Rightarrow> (string \<times> val) list" where
  "ephemeralRecord bdm =
     (case VirtualName bdm of
        Some v \<Rightarrow> AList.update ''virtual_name'' (VStr v) (deviceRecord bdm)
      | None \<Rightarrow> deviceRecord bdm)"

definition ebsRecord :: "BlockDeviceMapping \<Rightarrow> (string \<times> val) list" where
  "ebsRecord bdm = ebsField bdm SnapshotId VStr ''snapshot_id'' (deviceRecord bdm)"

fun readLoop :: "string \<Rightarrow> BlockDeviceMapping option list \<Rightarrow> blockDevices \<Rightarrow> failure + blockDevices" where
  "readLoop rootDeviceName [] acc = Inr acc"
| "readLoop rootDeviceName (None # rest) acc = Inl (Panic NilDereference)"
| "readLoop rootDeviceName (Some bdm # rest) acc =
     readLoop rootDeviceName rest (readEntry rootDeviceName bdm acc)"

definition readBlockDevicesFromLaunchConfiguration ::
  "env \<Rightarrow> ResourceData \<Rightarrow> LaunchConfiguration \<Rightarrow> trace \<Rightarrow> (failure + blockDevices option) \<times> trace" where
  "readBlockDevicesFromLaunchConfiguration env d lc tr =
     (if BlockDeviceMappings lc = [] then (Inr None, tr)
      else
        (case assertString (d_Get d ''image_id'') of
           Inl f \<Rightarrow> (Inl f, tr)
         | Inr amiId \<Rightarrow>
             (let tr' = tr @ [FetchRootDeviceName amiId] in
              case fetchRootDeviceName env tr amiId of
                Inl e \<Rightarrow> (Inl (Failed e), tr')
              | Inr r \<Rightarrow>
                  (let rootDeviceName = (case r of None \<Rightarrow> [] | Some n \<Rightarrow> n) in
                   case readLoop rootDeviceName (BlockDeviceMappings lc)
                          \<lparr>bd_ebs = [], bd_ephemeral = [], bd_root = None\<rparr> of
                     Inl f \<Rightarrow> (Inl f, tr')
                   | Inr b \<Rightarrow> (Inr (Some b), tr')))))"

definition readLCBlockDevices ::
  "env \<Rightarrow> ResourceData \<Rightarrow> LaunchConfiguration \<Rightarrow> trace \<Rightarrow> (failure + unit) \<times> ResourceData \<times> trace" where
  "readLCBlockDevices env d lc tr =
     (case readBlockDevicesFromLaunchConfiguration env d lc tr of
        (Inl f, tr') \<Rightarrow> (Inl f, d, tr')
      | (Inr ibds, tr') \<Rightarrow>
          (case d_Set env ''ebs_block_device''
                  (case ibds of None \<Rightarrow> VNil | Some b \<Rightarrow> VSet (map VMap (bd_ebs b))) d of
             (Some e, d1) \<Rightarrow> (Inl (Failed e), d1, tr')
           | (None, d1) \<Rightarrow>
               (case d_Set env ''ephemeral_block_device''
                       (case ibds of None \<Rightarrow> VNil | Some b \<Rightarrow> VSet (map VMap (bd_ephemeral b))) d1 of
                  (Some e, d2) \<Rightarrow> (Inl (Failed e), d2, tr')
                | (None, d2) \<Rightarrow>
                    (case (case ibds of None \<Rightarrow> None | Some b \<Rightarrow> bd_root b) of
                       Some root \<Rightarrow>
                         (case d_Set env ''root_block_device'' (VList [VMap root]) d2 of
                            (Some e, d3) \<Rightarrow> (Inl (Failed e), d3, tr')
                          | (None, d3) \<Rightarrow> (Inr (), d3, tr'))
                     | None \<Rightarrow> (Inr (), snd (d_Set env ''root_block_device'' (VList []) d2), tr')))))"

subsection \<open>Read\<close>

definition ofString :: "string option \<Rightarrow> val" where
  "ofString p = (case p of None \<Rightarrow> VNil | Some x \<Rightarrow> VStr x)"

definition ofBool :: "bool option \<Rightarrow> val" where
  "ofBool p = (case p of None \<Rightarrow> VNil | Some b \<Rightarrow> VBool b)"

definition setIgnoringError :: "env \<Rightarrow> string \<Rightarrow> val \<Rightarrow> ResourceData \<Rightarrow> ResourceData" where
  \<comment> \<open>\<open>d.Set(k, v)\<close> as a statement: the error is dropped\<close>
  "setIgnoringError env k v d = snd (d_Set env k v d)"

definition readAttributes ::
  "env \<Rightarrow> LaunchConfiguration \<Rightarrow> ResourceData \<Rightarrow> (failure + unit) \<times> ResourceData" where
  "readAttributes env lc d =
     (let d1 = setIgnoringError env ''key_name'' (ofString (KeyName lc)) d;
          d2 = setIgnoringError env ''image_id'' (ofString (ImageId lc)) d1;
          d3 = setIgnoringError env ''instance_type'' (ofString (InstanceType lc)) d2;
          d4 = setIgnoringError env ''name'' (ofString (LaunchConfigurationName lc)) d3;
          d5 = setIgnoringError env ''iam_instance_profile'' (ofString (IamInstanceProfile lc)) d4;
          d6 = setIgnoringError env ''ebs_optimized'' (ofBool (EbsOptimized lc)) d5;
          d7 = setIgnoringError env ''spot_price'' (ofString (SpotPrice lc)) d6
      in case Monitoring lc of
           None \<Rightarrow> (Inl (Panic NilDereference), d7)
         | Some mon \<Rightarrow>
             (let d8 = setIgnoringError env ''enable_monitoring'' (ofBool (Enabled mon)) d7;
                  d9 = setIgnoringError env ''security_groups'' (VSet (map VStr (SecurityGroups lc))) d8;
                  d10 = setIgnoringError env ''associate_public_ip_address''
                          (ofBool (AssociatePublicIpAddress lc)) d9;
                  d11 = setIgnoringError env ''vpc_classic_link_id'' (ofString (ClassicLinkVPCId lc)) d10;
                  d12 = setIgnoringError env ''vpc_classic_link_security_groups''
                          (VSet (map VStr (ClassicLinkVPCSecurityGroups lc))) d11
              in (Inr (), d12)))"

definition readLaunchConfiguration ::
  "env \<Rightarrow> LaunchConfiguration \<Rightarrow> ResourceData \<Rightarrow> trace \<Rightarrow> (failure + unit) \<times> ResourceData \<times> trace" where
  \<comment> \<open>Read from \<open>lc := describConfs.LaunchConfigurations[0]\<close> on\<close>
  "readLaunchConfiguration env lc d tr =
     (case readAttributes env lc d of
        (Inl f, d1) \<Rightarrow> (Inl f, d1, tr)
      | (Inr u, d1) \<Rightarrow>
          (case ImageId lc of
             None \<Rightarrow> (Inl (Panic NilDereference), d1, tr)
           | Some amiId \<Rightarrow>
               (case flattenAutoscalingBlockDeviceMappings env (BlockDeviceMappings lc) amiId tr of
                  (Inl f, tr') \<Rightarrow> (Inl f, d1, tr')
                | (Inr bdms, tr') \<Rightarrow>
                    (case d_Set env ''block_device_mapping'' (VSet bdms) d1 of
                       (Some e, d2) \<Rightarrow> (Inl (Failed e), d2, tr')
                     | (None, d2) \<Rightarrow> readLCBlockDevices env d2 lc tr'))))"

definition resourceAwsLaunchConfigurationRead ::
  "env \<Rightarrow> ResourceData \<Rightarrow> trace \<Rightarrow> (failure + unit) \<times> ResourceData \<times> trace" where
  "resourceAwsLaunchConfigurationRead env d tr =
     (let tr1 = tr @ [DescribeLaunchConfigurations [d_Id d]] in
      case remoteDescribe env tr [d_Id d] of
        Inl e \<Rightarrow> (Inl (Failed (ErrorRetrieving e)), d, tr1)
      | Inr lcs \<Rightarrow>
          (case lcs of
             [] \<Rightarrow> (Inr (), d_SetId [] d, tr1)
           | lc # others \<Rightarrow>
               (case LaunchConfigurationName lc of
                  None \<Rightarrow> (Inl (Panic NilDereference), d, tr1)
                | Some name \<Rightarrow>
                    if name \<noteq> d_Id d then (Inl (Failed (UnableToFind lcs)), d, tr1)
                    else readLaunchConfiguration env lc d tr1)))"

subsection \<open>\<open>resource.Retry\<close>\<close>

text \<open>
  Modelled from the spec: \<open>resource.Retry\<close> belongs to the host library and is not part
  of this file. The spec describes a retry confined to a bounded window: the function is
  called until it returns nil or a non-retryable error, or the window is over; the error
  of the last call is the result. The window is counted in attempts: \<open>Retry n f\<close> calls
  \<open>f\<close> once and up to \<open>n\<close> times more.
\<close>

datatype RetryError = RetryableError error | NonRetryableError error

fun Retry :: "nat \<Rightarrow> ('s \<Rightarrow> (failure + RetryError option) \<times> 's) \<Rightarrow> 's \<Rightarrow> (failure + unit) \<times> 's" where
  "Retry 0 f s =
     (case f s of
        (Inl p, s') \<Rightarrow> (Inl p, s')
      | (Inr None, s') \<Rightarrow> (Inr (), s')
      | (Inr (Some (NonRetryableError e)), s') \<Rightarrow> (Inl (Failed e), s')
      | (Inr (Some (RetryableError e)), s') \<Rightarrow> (Inl (Failed e), s'))"
| "Retry (Suc n) f s =
     (case f s of
        (Inl p, s') \<Rightarrow> (Inl p, s')
      | (Inr None, s') \<Rightarrow> (Inr (), s')
      | (Inr (Some (NonRetryableError e)), s') \<Rightarrow> (Inl (Failed e), s')
      | (Inr (Some (RetryableError e)), s') \<Rightarrow> Retry n f s')"

subsection \<open>Create\<close>

definition getOkString :: "ResourceData \<Rightarrow> string \<Rightarrow> failure + string option" where
  \<comment> \<open>\<open>if v, ok := d.GetOk(k); ok { ... aws.String(v.(string)) }\<close>\<close>
  "getOkString d k =
     (case d_GetOk d k of
        (v, ok) \<Rightarrow> if ok then andThen (assertString v) (\<lambda>x. Inr (Some x)) else Inr None)"

definition getOkBool :: "ResourceData \<Rightarrow> string \<Rightarrow> failure + bool option" where
  "getOkBool d k =
     (case d_GetOk d k of
        (v, ok) \<Rightarrow> if ok then andThen (assertBool v) (\<lambda>x. Inr (Some x)) else Inr None)"

definition getOkStringSet :: "env \<Rightarrow> ResourceData \<Rightarrow> string \<Rightarrow> failure + string list option" where
  \<comment> \<open>\<open>if v, ok := d.GetOk(k); ok { ... expandStringList(v.(*schema.Set).List()) }\<close>\<close>
  "getOkStringSet env d k =
     (case d_GetOk d k of
        (v, ok) \<Rightarrow>
          if ok then andThen (assertSetList v) (\<lambda>l. Inr (Some (expandStringList env l)))
          else Inr None)"

definition createLaunchConfigurationOpts ::
  "env \<Rightarrow> ResourceData \<Rightarrow> failure + CreateLaunchConfigurationInput" where
  \<comment> \<open>Create up to the block devices\<close>
  "createLaunchConfigurationOpts env d =
     andThen (assertString (d_Get d ''name'')) (\<lambda>name.
     andThen (assertString (d_Get d ''image_id'')) (\<lambda>amiId.
     andThen (assertString (d_Get d ''instance_type'')) (\<lambda>instanceType.
     andThen (assertBool (d_Get d ''ebs_optimized'')) (\<lambda>ebsOptimized.
     andThen (getOkString d ''user_data'') (\<lambda>userData.
     andThen (assertBool (d_Get d ''enable_monitoring'')) (\<lambda>monitoring.
     andThen (getOkString d ''iam_instance_profile'') (\<lambda>profile.
     andThen (getOkString d ''placement_tenancy'') (\<lambda>tenancy.
     andThen (getOkBool d ''associate_public_ip_address'') (\<lambda>publicIp.
     andThen (getOkString d ''key_name'') (\<lambda>keyName.
     andThen (getOkString d ''spot_price'') (\<lambda>spotPrice.
     andThen (getOkStringSet env d ''security_groups'') (\<lambda>groups.
     andThen (getOkString d ''vpc_classic_link_id'') (\<lambda>linkId.
     andThen (getOkStringSet env d ''vpc_classic_link_security_groups'') (\<lambda>linkGroups.
     Inr \<lparr>optName = Some name,
          optImageId = Some amiId,
          optInstanceType = Some instanceType,
          optEbsOptimized = Some ebsOptimized,
          optUserData = map_option (base64Encode env) userData,
          optInstanceMonitoring = Some \<lparr>Enabled = Some monitoring\<rparr>,
          optIamInstanceProfile = profile,
          optPlacementTenancy = tenancy,
          optAssociatePublicIpAddress = publicIp,
          optKeyName = keyName,
          optSpotPrice = spotPrice,
          optSecurityGroups = groups,
          optClassicLinkVPCId = linkId,
          optClassicLinkVPCSecurityGroups = linkGroups,
          optBlockDeviceMappings = None\<rparr>))))))))))))))"

text \<open>One round of the loop over \<open>ebs_block_device\<close>: the descriptor is built, then the
  device name is compared with the root device name.\<close>

definition ebsBlockDevice :: "string \<Rightarrow> val \<Rightarrow> failure + BlockDeviceMapping" where
  "ebsBlockDevice rootDeviceName v =
     andThen (assertMap v) (\<lambda>bd.
     andThen (assertBool (index bd ''delete_on_termination'')) (\<lambda>b.
     andThen (assertString (index bd ''device_name'')) (\<lambda>name.
       if name = rootDeviceName then Inl (Failed (RootDeviceDeclaredAsEbs rootDeviceName))
       else Inr \<lparr>DeviceName = Some name,
                 Ebs = Some (setIops bd (setVolumeType bd (setVolumeSize bd (setEncrypted bd
                               (setSnapshotId bd (newEbs b)))))),
                 NoDevice = None, VirtualName = None\<rparr>)))"

fun ebsBlockDevices ::
  "string \<Rightarrow> val list \<Rightarrow> BlockDeviceMapping option list \<Rightarrow> failure + BlockDeviceMapping option list" where
  "ebsBlockDevices rootDeviceName [] blockDevices = Inr blockDevices"
| "ebsBlockDevices rootDeviceName (v # vL) blockDevices =
     (case ebsBlockDevice rootDeviceName v of
        Inl f \<Rightarrow> Inl f
      | Inr b \<Rightarrow> ebsBlockDevices rootDeviceName vL (blockDevices @ [Some b]))"

definition ephemeralBlockDevice :: "val \<Rightarrow> failure + BlockDeviceMapping" where
  "ephemeralBlockDevice v =
     andThen (assertMap v) (\<lambda>bd.
     andThen (assertString (index bd ''device_name'')) (\<lambda>name.
     andThen (assertString (index bd ''virtual_name'')) (\<lambda>virtual.
       Inr \<lparr>DeviceName = Some name, Ebs = None, NoDevice = None, VirtualName = Some virtual\<rparr>)))"

fun ephemeralBlockDevices ::
  "val list \<Rightarrow> BlockDeviceMapping option list \<Rightarrow> failure + BlockDeviceMapping option list" where
  "ephemeralBlockDevices [] blockDevices = Inr blockDevices"
| "ephemeralBlockDevices (v # vL) blockDevices =
     (case ephemeralBlockDevice v of
        Inl f \<Rightarrow> Inl f
      | Inr b \<Rightarrow> ephemeralBlockDevices vL (blockDevices @ [Some b]))"

definition rootBlockDevice ::
  "env \<Rightarrow> ResourceData \<Rightarrow> val \<Rightarrow> trace \<Rightarrow> (failure + BlockDeviceMapping) \<times> trace" where
  "rootBlockDevice env d v tr =
     (case andThen (assertMap v) (\<lambda>bd.
           andThen (assertBool (index bd ''delete_on_termination'')) (\<lambda>b.
           andThen (assertString (d_Get d ''image_id'')) (\<lambda>amiId.
             Inr (setIops bd (setVolumeType bd (setVolumeSize bd (newEbs b))), amiId)))) of
        Inl f \<Rightarrow> (Inl f, tr)
      | Inr (ebs, amiId) \<Rightarrow>
          (let tr' = tr @ [FetchRootDeviceName amiId] in
           case fetchRootDeviceName env tr amiId of
             Inl e \<Rightarrow> (Inl (Failed e), tr')
           | Inr None \<Rightarrow> (Inl (Failed (NoRootDeviceName amiId)), tr')
           | Inr (Some dn) \<Rightarrow>
               (Inr \<lparr>DeviceName = Some dn, Ebs = Some ebs, NoDevice = None, VirtualName = None\<rparr>,
                tr')))"

fun rootBlockDevices ::
  "env \<Rightarrow> ResourceData \<Rightarrow> val list \<Rightarrow> BlockDeviceMapping option list \<Rightarrow> trace
     \<Rightarrow> (failure + BlockDeviceMapping option list) \<times> trace" where
  "rootBlockDevices env d [] blockDevices tr = (Inr blockDevices, tr)"
| "rootBlockDevices env d (v # vL) blockDevices tr =
     (case rootBlockDevice env d v tr of
        (Inl f, tr') \<Rightarrow> (Inl f, tr')
      | (Inr b, tr') \<Rightarrow> rootBlockDevices env d vL (blockDevices @ [Some b]) tr')"

definition deprecatedBlockDevices ::
  "env \<Rightarrow> ResourceData \<Rightarrow> trace \<Rightarrow> (failure + BlockDeviceMapping option list) \<times> trace" where
  \<comment> \<open>the \<open>else\<close> branch: the three deprecated fields\<close>
  "deprecatedBlockDevices env d tr =
     (case assertString (d_Get d ''image_id'') of
        Inl f \<Rightarrow> (Inl f, tr)
      | Inr amiId \<Rightarrow>
          (let tr1 = tr @ [FetchRootDeviceName amiId] in
           case fetchRootDeviceName env tr amiId of
             Inl e \<Rightarrow> (Inl (Failed e), tr1)
           | Inr r \<Rightarrow>
               (let rootDeviceName = (case r of None \<Rightarrow> [] | Some n \<Rightarrow> n) in
                case (case d_GetOk d ''ebs_block_device'' of
                        (v, ok) \<Rightarrow>
                          if ok then andThen (assertSetList v) (\<lambda>vL. ebsBlockDevices rootDeviceName vL [])
                          else Inr []) of
                  Inl f \<Rightarrow> (Inl f, tr1)
                | Inr bds1 \<Rightarrow>
                    (case (case d_GetOk d ''ephemeral_block_device'' of
                             (v, ok) \<Rightarrow>
                               if ok then andThen (assertSetList v) (\<lambda>vL. ephemeralBlockDevices vL bds1)
                               else Inr bds1) of
                       Inl f \<Rightarrow> (Inl f, tr1)
                     | Inr bds2 \<Rightarrow>
                         (case d_GetOk d ''root_block_device'' of
                            (v, ok) \<Rightarrow>
                              if ok then
                                (case assertList v of
                                   Inl f \<Rightarrow> (Inl f, tr1)
                                 | Inr vL \<Rightarrow> rootBlockDevices env d vL bds2 tr1)
                              else (Inr bds2, tr1))))))"

definition createBlockDeviceMappings ::
  "env \<Rightarrow> ResourceData \<Rightarrow> CreateLaunchConfigurationInput \<Rightarrow> trace
     \<Rightarrow> (failure + CreateLaunchConfigurationInput) \<times> trace" where
  "createBlockDeviceMappings env d opts tr =
     (case d_GetOk d ''block_device_mapping'' of
        (v, ok) \<Rightarrow>
          if ok then
            (case assertString (d_Get d ''image_id'') of
               Inl f \<Rightarrow> (Inl f, tr)
             | Inr amiId \<Rightarrow>
                 (case assertList v of
                    Inl f \<Rightarrow> (Inl f, tr)
                  | Inr l \<Rightarrow>
                      (case expandAutoscalingBlockDeviceMappings env l amiId tr of
                         (Inl f, tr') \<Rightarrow> (Inl f, tr')
                       | (Inr bdms, tr') \<Rightarrow> (Inr (opts\<lparr>optBlockDeviceMappings := bdms\<rparr>), tr'))))
          else
            (case deprecatedBlockDevices env d tr of
               (Inl f, tr') \<Rightarrow> (Inl f, tr')
             | (Inr blockDevices, tr') \<Rightarrow>
                 (Inr (if length blockDevices > 0
                       then opts\<lparr>optBlockDeviceMappings := Some blockDevices\<rparr> else opts), tr')))"

definition launchConfigurationName :: "env \<Rightarrow> ResourceData \<Rightarrow> failure + string" where
  "launchConfigurationName env d =
     (case d_GetOk d ''name'' of
        (v, ok) \<Rightarrow>
          if ok then assertString v
          else (case d_GetOk d ''name_prefix'' of
                  (v, ok) \<Rightarrow>
                    if ok then andThen (assertString v) (\<lambda>x. Inr (PrefixedUniqueId env x))
                    else Inr (UniqueId env)))"

definition createRequest ::
  "env \<Rightarrow> ResourceData \<Rightarrow> trace \<Rightarrow> (failure + CreateLaunchConfigurationInput \<times> string) \<times> trace" where
  \<comment> \<open>Create up to the first retry: the request and the name\<close>
  "createRequest env d tr =
     (case createLaunchConfigurationOpts env d of
        Inl f \<Rightarrow> (Inl f, tr)
      | Inr opts0 \<Rightarrow>
          (case createBlockDeviceMappings env d opts0 tr of
             (Inl f, tr1) \<Rightarrow> (Inl f, tr1)
           | (Inr opts1, tr1) \<Rightarrow>
               (case launchConfigurationName env d of
                  Inl f \<Rightarrow> (Inl f, tr1)
                | Inr lcName \<Rightarrow> (Inr (opts1\<lparr>optName := Some lcName\<rparr>, lcName), tr1))))"

definition createAttempt ::
  "env \<Rightarrow> CreateLaunchConfigurationInput \<Rightarrow> trace \<Rightarrow> (failure + RetryError option) \<times> trace" where
  \<comment> \<open>the function handed to the first \<open>resource.Retry\<close>\<close>
  "createAttempt env opts tr =
     (let tr' = tr @ [CreateLaunchConfiguration opts] in
      case remoteCreate env tr opts of
        Some err \<Rightarrow>
          if isAWSErr env err ''ValidationError'' ''Invalid IamInstanceProfile''
          then (Inr (Some (RetryableError err)), tr')
          else if isAWSErr env err ''ValidationError''
                    ''You are not authorized to perform this operation''
          then (Inr (Some (RetryableError err)), tr')
          else (Inr (Some (NonRetryableError err)), tr')
      | None \<Rightarrow> (Inr None, tr'))"

definition readAttempt ::
  "env \<Rightarrow> ResourceData \<times> trace \<Rightarrow> (failure + RetryError option) \<times> ResourceData \<times> trace" where
  \<comment> \<open>the function handed to the second \<open>resource.Retry\<close>\<close>
  "readAttempt env s =
     (case resourceAwsLaunchConfigurationRead env (fst s) (snd s) of
        (Inl (Failed err), s') \<Rightarrow> (Inr (Some (RetryableError err)), s')
      | (Inl (Panic p), s') \<Rightarrow> (Inl (Panic p), s')
      | (Inr u, s') \<Rightarrow> (Inr None, s'))"

definition resourceAwsLaunchConfigurationCreate ::
  "env \<Rightarrow> ResourceData \<Rightarrow> trace \<Rightarrow> (failure + unit) \<times> ResourceData \<times> trace" where
  "resourceAwsLaunchConfigurationCreate env d tr =
     (case createRequest env d tr of
        (Inl f, tr1) \<Rightarrow> (Inl f, d, tr1)
      | (Inr (opts, lcName), tr1) \<Rightarrow>
          (case Retry (attemptsWithin env 90) (createAttempt env opts) tr1 of
             (Inl (Failed err), tr2) \<Rightarrow> (Inl (Failed (ErrorCreating err)), d, tr2)
           | (Inl (Panic p), tr2) \<Rightarrow> (Inl (Panic p), d, tr2)
           | (Inr u, tr2) \<Rightarrow>
               Retry (attemptsWithin env 30) (readAttempt env) (d_SetId lcName d, tr2)))"

text \<open>For the statements about Create: the two error signatures that the first retry
  treats as transient, and the number of creation requests and of describe requests in a
  trace.\<close>

definition retryableCreateError :: "env \<Rightarrow> error \<Rightarrow> bool" where
  "retryableCreateError env err =
     (isAWSErr env err ''ValidationError'' ''Invalid IamInstanceProfile''
      \<or> isAWSErr env err ''ValidationError'' ''You are not authorized to perform this operation'')"

fun isCreateCall :: "call \<Rightarrow> bool" where
  "isCreateCall (CreateLaunchConfiguration opts) = True"
| "isCreateCall c = False"

fun isDescribeCall :: "call \<Rightarrow> bool" where
  "isDescribeCall (DescribeLaunchConfigurations names) = True"
| "isDescribeCall c = False"

definition createCalls :: "trace \<Rightarrow> nat" where
  "createCalls tr = length (filter isCreateCall tr)"

definition describeCalls :: "trace \<Rightarrow> nat" where
  "describeCalls tr = length (filter isDescribeCall tr)"

text \<open>The resource: its callbacks and its schema. There is no Update.\<close>

record Resource =
  Create :: "(env \<Rightarrow> ResourceData \<Rightarrow> trace \<Rightarrow> (failure + unit) \<times> ResourceData \<times> trace) option"
  Read :: "(env \<Rightarrow> ResourceData \<Rightarrow> trace \<Rightarrow> (failure + unit) \<times> ResourceData \<times> trace) option"
  Update :: "(env \<Rightarrow> ResourceData \<Rightarrow> trace \<Rightarrow> (failure + unit) \<times> ResourceData \<times> trace) option"
  Delete :: "(env \<Rightarrow> ResourceData \<Rightarrow> trace \<Rightarrow> (failure + unit) \<times> ResourceData \<times> trace) option"
  ResourceSchema :: "(string \<times> Schema) list"

subsection \<open>Delete\<close>

definition resourceAwsLaunchConfigurationDelete ::
  "env \<Rightarrow> ResourceData \<Rightarrow> trace \<Rightarrow> (failure + unit) \<times> ResourceData \<times> trace" where
  "resourceAwsLaunchConfigurationDelete env d tr =
     (let tr' = tr @ [DeleteLaunchConfiguration (d_Id d)] in
      case remoteDelete env tr (d_Id d) of
        Some err \<Rightarrow>
          if isAWSErr env err ''InvalidConfiguration.NotFound'' ''''
          then (Inr (), d, tr')
          else (Inl (Failed err), d, tr')
      | None \<Rightarrow> (Inr (), d, tr'))"

definition resourceAwsLaunchConfiguration :: Resource where
  "resourceAwsLaunchConfiguration =
     \<lparr>Create = Some resourceAwsLaunchConfigurationCreate,
      Read = Some resourceAwsLaunchConfigurationRead,
      Update = None,
      Delete = Some resourceAwsLaunchConfigurationDelete,
      ResourceSchema = resourceSchema\<rparr>"

section \<open>Example data\<close>

text \<open>An environment for the examples: the image \<open>ami-1\<close> has the root device
  \<open>/dev/sda1\<close>, every other image has none; the remote calls succeed.\<close>

definition exampleEnv :: env where
  "exampleEnv =
     \<lparr> fetchRootDeviceName = (\<lambda>tr ami. if ami = ''ami-1'' then Inr (Some ''/dev/sda1'') else Inr None),
       remoteCreate = (\<lambda>tr opts. None),
       remoteDescribe = (\<lambda>tr names. Inr []),
       remoteDelete = (\<lambda>tr name. None),
       isAWSErr = codeAndMessage,
       base64Encode = (\<lambda>s. s),
       expandStringList = (\<lambda>vs. concat (map (\<lambda>v. case v of VStr s \<Rightarrow> [s] | _ \<Rightarrow> []) vs)),
       UniqueId = ''terraform-1'',
       PrefixedUniqueId = (\<lambda>p. p @ ''1''),
       attemptsWithin = (\<lambda>secs. secs),
       setError = (\<lambda>k v. None) \<rparr>"

text \<open>A configuration that sets \<open>block_device_mapping\<close>: one entry, as the host reads
  it (every attribute of the block present).\<close>

definition mappingEntry :: "(string \<times> val) list" where
  "mappingEntry =
     [(''device_name'', VStr ''/dev/sdb''), (''virtual_name'', VStr []),
      (''no_device'', VBool False), (''is_root_device'', VBool False),
      (''ebs'', VList [VMap [(''delete_on_termination'', VBool True),
                             (''iops'', VInt 0), (''snapshot_id'', VStr []),
                             (''volume_size'', VInt 8), (''volume_type'', VStr ''gp2''),
                             (''encrypted'', VBool False)]])]"

definition mappingConfig :: ResourceData where
  "mappingConfig =
     \<lparr>rd_id = [],
      rd_attrs = [(''image_id'', VStr ''ami-1''), (''instance_type'', VStr ''t2.micro''),
                  (''block_device_mapping'', VSet [VMap mappingEntry])]\<rparr>"

text \<open>A launch configuration as the remote side describes it: a root volume, an
  instance-store volume and a data volume; and a local record of it.\<close>

definition rootMapping :: BlockDeviceMapping where
  "rootMapping =
     \<lparr>DeviceName = Some ''/dev/sda1'',
      Ebs = Some \<lparr>DeleteOnTermination = Some True, Encrypted = None, Iops = None,
                  SnapshotId = None, VolumeSize = Some 8, VolumeType = Some ''gp2''\<rparr>,
      NoDevice = None, VirtualName = None\<rparr>"

definition ephemeralMapping :: BlockDeviceMapping where
  "ephemeralMapping =
     \<lparr>DeviceName = Some ''/dev/sdb'', Ebs = None, NoDevice = None,
      VirtualName = Some ''ephemeral0''\<rparr>"

definition dataMapping :: BlockDeviceMapping where
  "dataMapping =
     \<lparr>DeviceName = Some ''/dev/sdc'',
      Ebs = Some \<lparr>DeleteOnTermination = Some False, Encrypted = Some True, Iops = Some 100,
                  SnapshotId = Some ''snap-1'', VolumeSize = Some 20, VolumeType = Some ''io1''\<rparr>,
      NoDevice = None, VirtualName = None\<rparr>"

definition exampleLC :: "string \<Rightarrow> string \<Rightarrow> LaunchConfiguration" where
  "exampleLC name amiId =
     \<lparr>LaunchConfigurationName = Some name, ImageId = Some amiId,
      InstanceType = Some ''t2.micro'', KeyName = None, IamInstanceProfile = None,
      EbsOptimized = Some False, SpotPrice = None,
      Monitoring = Some \<lparr>Enabled = Some True\<rparr>, SecurityGroups = [],
      AssociatePublicIpAddress = None, ClassicLinkVPCId = None,
      ClassicLinkVPCSecurityGroups = [],
      BlockDeviceMappings = [Some rootMapping, Some ephemeralMapping, Some dataMapping]\<rparr>"

definition storedConfig :: "string \<Rightarrow> string \<Rightarrow> ResourceData" where
  "storedConfig name amiId =
     \<lparr>rd_id = name,
      rd_attrs = [(''image_id'', VStr amiId), (''instance_type'', VStr ''t2.micro'')]\<rparr>"

text \<open>A configuration that uses the deprecated \<open>ebs_block_device\<close>, with one entry
  for each device name given.\<close>

definition ebsDeviceEntry :: "string \<Rightarrow> val" where
  "ebsDeviceEntry name =
     VMap [(''device_name'', VStr name), (''delete_on_termination'', VBool True),
           (''iops'', VInt 0), (''snapshot_id'', VStr []), (''volume_size'', VInt 10),
           (''volume_type'', VStr ''gp2''), (''encrypted'', VBool False)]"

definition deprecatedConfig :: "string \<Rightarrow> string list \<Rightarrow> ResourceData" where
  "deprecatedConfig amiId names =
     \<lparr>rd_id = [],
      rd_attrs = [(''image_id'', VStr amiId), (''instance_type'', VStr ''t2.micro''),
                  (''ebs_block_device'', VSet (map ebsDeviceEntry names))]\<rparr>"

text \<open>A configuration with a name and no block devices, the request Create builds from
  it, and two remote sides: one whose first creation request fails because the instance
  profile is not there yet, one that refuses every creation request for another reason.\<close>

definition namedConfig :: ResourceData where
  "namedConfig =
     \<lparr>rd_id = [],
      rd_attrs = [(''name'', VStr ''lc-1''), (''image_id'', VStr ''ami-1''),
                  (''instance_type'', VStr ''t2.micro''), (''enable_monitoring'', VBool True)]\<rparr>"

definition namedRequest :: CreateLaunchConfigurationInput where
  "namedRequest =
     \<lparr>optName = Some ''lc-1'', optImageId = Some ''ami-1'', optInstanceType = Some ''t2.micro'',
      optEbsOptimized = Some False, optUserData = None,
      optInstanceMonitoring = Some \<lparr>Enabled = Some True\<rparr>, optIamInstanceProfile = None,
      optPlacementTenancy = None, optAssociatePublicIpAddress = None, optKeyName = None,
      optSpotPrice = None, optSecurityGroups = None, optClassicLinkVPCId = None,
      optClassicLinkVPCSecurityGroups = None, optBlockDeviceMappings = None\<rparr>"

definition profileNotReady :: env where
  "profileNotReady =
     exampleEnv\<lparr>remoteCreate := \<lambda>tr opts.
        if createCalls tr = 0
        then Some (AwsErr ''ValidationError'' ''Invalid IamInstanceProfile: web'') else None\<rparr>"

definition nameTaken :: env where
  "nameTaken =
     exampleEnv\<lparr>remoteCreate := \<lambda>tr opts.
        Some (AwsErr ''AlreadyExists'' ''Launch Configuration by this name already exists'')\<rparr>"

section \<open>Properties\<close>

subsection \<open>Delete\<close>

text \<open>
  C8. Delete returns success when the remote delete call succeeds and when it fails with
  the error that \<open>isAWSErr\<close> recognises as \<open>InvalidConfiguration.NotFound\<close>; every other
  error of the delete call is returned as it is. One delete call is made in each case and
  the local record is left alone.
\<close>

theorem delete_tolerates_not_found:
  "(remoteDelete env tr (d_Id d) = None \<longrightarrow>
      resourceAwsLaunchConfigurationDelete env d tr
        = (Inr (), d, tr @ [DeleteLaunchConfiguration (d_Id d)]))
   \<and> (\<forall>e. remoteDelete env tr (d_Id d) = Some e
         \<and> isAWSErr env e ''InvalidConfiguration.NotFound'' '''' \<longrightarrow>
      resourceAwsLaunchConfigurationDelete env d tr
        = (Inr (), d, tr @ [DeleteLaunchConfiguration (d_Id d)]))
   \<and> (\<forall>e. remoteDelete env tr (d_Id d) = Some e
         \<and> \<not> isAWSErr env e ''InvalidConfiguration.NotFound'' '''' \<longrightarrow>
      resourceAwsLaunchConfigurationDelete env d tr
        = (Inl (Failed e), d, tr @ [DeleteLaunchConfiguration (d_Id d)]))"
  by (simp add: resourceAwsLaunchConfigurationDelete_def)

theorem delete_tolerates_not_found_witness:
  "resourceAwsLaunchConfigurationDelete exampleEnv \<lparr>rd_id = ''lc-1'', rd_attrs = []\<rparr> []
     = (Inr (), \<lparr>rd_id = ''lc-1'', rd_attrs = []\<rparr>, [DeleteLaunchConfiguration ''lc-1''])
   \<and> resourceAwsLaunchConfigurationDelete
         (exampleEnv\<lparr>remoteDelete := \<lambda>tr n. Some (AwsErr ''InvalidConfiguration.NotFound'' ''gone'')\<rparr>)
         \<lparr>rd_id = ''lc-1'', rd_attrs = []\<rparr> []
     = (Inr (), \<lparr>rd_id = ''lc-1'', rd_attrs = []\<rparr>, [DeleteLaunchConfiguration ''lc-1''])
   \<and> resourceAwsLaunchConfigurationDelete
         (exampleEnv\<lparr>remoteDelete := \<lambda>tr n. Some (AwsErr ''ResourceInUse'' ''attached'')\<rparr>)
         \<lparr>rd_id = ''lc-1'', rd_attrs = []\<rparr> []
     = (Inl (Failed (AwsErr ''ResourceInUse'' ''attached'')),
        \<lparr>rd_id = ''lc-1'', rd_attrs = []\<rparr>, [DeleteLaunchConfiguration ''lc-1''])"
  using
    delete_tolerates_not_found [of exampleEnv "[]" "\<lparr>rd_id = ''lc-1'', rd_attrs = []\<rparr>"]
    delete_tolerates_not_found
      [of "exampleEnv\<lparr>remoteDelete := \<lambda>tr n. Some (AwsErr ''InvalidConfiguration.NotFound'' ''gone'')\<rparr>"
          "[]" "\<lparr>rd_id = ''lc-1'', rd_attrs = []\<rparr>"]
    delete_tolerates_not_found
      [of "exampleEnv\<lparr>remoteDelete := \<lambda>tr n. Some (AwsErr ''ResourceInUse'' ''attached'')\<rparr>"
          "[]" "\<lparr>rd_id = ''lc-1'', rd_attrs = []\<rparr>"]
  by (simp add: exampleEnv_def d_Id_def)

subsection \<open>The schema: what forces a new resource\<close>

text \<open>
  C2. Every attribute of the schema, at any depth, can be set by the configuration, and
  every one is marked \<open>ForceNew\<close>, or lies in a block that is, or is a \<open>Computed\<close> block
  whose own attributes are all marked \<open>ForceNew\<close>. Those not marked themselves are the
  blocks \<open>ebs_block_device\<close> and \<open>root_block_device\<close> and the two attributes of
  \<open>ephemeral_block_device\<close>. The resource has no Update callback.
\<close>

theorem schema_forces_new:
  "ResourceSchema resourceAwsLaunchConfiguration = resourceSchema
   \<and> Update resourceAwsLaunchConfiguration = None
   \<and> list_all userSettable (map (\<lambda>(path, up, s). s) (attributes [] [] resourceSchema))
   \<and> list_all forcesNew (attributes [] [] resourceSchema)
   \<and> notMarkedForceNew resourceSchema
       = [[''ebs_block_device''],
          [''ephemeral_block_device'', ''device_name''],
          [''ephemeral_block_device'', ''virtual_name''],
          [''root_block_device'']]"
  by (simp add: resourceAwsLaunchConfiguration_def resourceSchema_def blockDeviceMappingSchema_def ebsSchema_def
      ebsBlockDeviceSchema_def ephemeralBlockDeviceSchema_def rootBlockDeviceSchema_def
      forcesNew_def notMarkedForceNew_def userSettable_def has_def)

theorem ebs_block_device_not_force_new:
  "\<exists>s. map_of resourceSchema ''ebs_block_device'' = Some s \<and> userSettable s \<and> \<not> has ForceNew s"
  by (simp add: resourceSchema_def userSettable_def has_def)

subsection \<open>EBS descriptors: which fields are sent\<close>

lemma VolumeSize_setters:
  "VolumeSize (setIops m e) = VolumeSize e"
  "VolumeSize (setVolumeType m e) = VolumeSize e"
  "VolumeSize (setEncrypted m e) = VolumeSize e"
  "VolumeSize (setSnapshotId m e) = VolumeSize e"
  "VolumeSize (newEbs b) = None"
  by (simp_all add: setIops_def setVolumeType_def setEncrypted_def setSnapshotId_def newEbs_def
      split: prod.splits)

lemma Iops_setters:
  "Iops (setVolumeSize m e) = Iops e"
  "Iops (setVolumeType m e) = Iops e"
  "Iops (setEncrypted m e) = Iops e"
  "Iops (setSnapshotId m e) = Iops e"
  "Iops (newEbs b) = None"
  by (simp_all add: setVolumeSize_def setVolumeType_def setEncrypted_def setSnapshotId_def newEbs_def
      split: prod.splits)

lemma VolumeSize_setVolumeSize:
  "VolumeSize (setVolumeSize m e)
     = (case index m ''volume_size'' of
          VInt n \<Rightarrow> if n = 0 then VolumeSize e else Some n | _ \<Rightarrow> VolumeSize e)"
  by (simp add: setVolumeSize_def okInt_def split: val.splits)

lemma Iops_setIops:
  "Iops (setIops m e)
     = (case index m ''iops'' of VInt n \<Rightarrow> if n > 0 then Some n else Iops e | _ \<Rightarrow> Iops e)"
  by (simp add: setIops_def okInt_def split: val.splits)

lemma ebs_fields:
  "VolumeSize (setIops m (setVolumeType m (setVolumeSize m (setEncrypted m (setSnapshotId m (newEbs b))))))
     = (case index m ''volume_size'' of VInt n \<Rightarrow> if n = 0 then None else Some n | _ \<Rightarrow> None)
   \<and> Iops (setIops m (setVolumeType m (setVolumeSize m (setEncrypted m (setSnapshotId m (newEbs b))))))
     = (case index m ''iops'' of VInt n \<Rightarrow> if n > 0 then Some n else None | _ \<Rightarrow> None)"
  by (simp add: VolumeSize_setters Iops_setters VolumeSize_setVolumeSize Iops_setIops
      split: val.splits)

text \<open>
  C7. For an EBS descriptor (a map with its \<open>delete_on_termination\<close> flag), both in
  \<open>expandAutoscalingEbs\<close> and in the loop of Create over \<open>ebs_block_device\<close>: the volume
  size is sent when it is an \<open>int\<close> other than zero and left unset otherwise; the iops
  are sent when they are an \<open>int\<close> greater than zero and left unset otherwise, so a
  negative value is dropped as zero is. A value that is sent is sent unchanged.
\<close>

theorem zero_size_and_iops_omitted:
  "index m ''delete_on_termination'' = VBool b \<Longrightarrow>
   (\<exists>ebs. expandAutoscalingEbs (VMap m # rest) = Inr (Some ebs)
      \<and> VolumeSize ebs
          = (case index m ''volume_size'' of VInt n \<Rightarrow> if n = 0 then None else Some n | _ \<Rightarrow> None)
      \<and> Iops ebs
          = (case index m ''iops'' of VInt n \<Rightarrow> if n > 0 then Some n else None | _ \<Rightarrow> None))
   \<and> (\<forall>name. index m ''device_name'' = VStr name \<and> name \<noteq> rootDeviceName \<longrightarrow>
        (\<exists>ebs. ebsBlockDevice rootDeviceName (VMap m)
                 = Inr \<lparr>DeviceName = Some name, Ebs = Some ebs, NoDevice = None, VirtualName = None\<rparr>
           \<and> VolumeSize ebs
               = (case index m ''volume_size'' of VInt n \<Rightarrow> if n = 0 then None else Some n | _ \<Rightarrow> None)
           \<and> Iops ebs
               = (case index m ''iops'' of VInt n \<Rightarrow> if n > 0 then Some n else None | _ \<Rightarrow> None)))"
  using ebs_fields [of m b]
  by (simp add: expandAutoscalingEbs_def ebsBlockDevice_def andThen_def assertMap_def assertBool_def
      assertString_def)

theorem zero_size_and_iops_omitted_witness:
  "(\<exists>ebs. expandAutoscalingEbs
            [VMap [(''delete_on_termination'', VBool True), (''volume_size'', VInt 0),
                   (''iops'', VInt 300), (''device_name'', VStr ''/dev/sdb'')]] = Inr (Some ebs)
       \<and> VolumeSize ebs = None \<and> Iops ebs = Some 300)
   \<and> (\<exists>ebs. ebsBlockDevice ''/dev/sda1''
            (VMap [(''delete_on_termination'', VBool True), (''volume_size'', VInt 0),
                   (''iops'', VInt 300), (''device_name'', VStr ''/dev/sdb'')])
          = Inr \<lparr>DeviceName = Some ''/dev/sdb'', Ebs = Some ebs, NoDevice = None, VirtualName = None\<rparr>
       \<and> VolumeSize ebs = None \<and> Iops ebs = Some 300)"
  using zero_size_and_iops_omitted
    [of "[(''delete_on_termination'', VBool True), (''volume_size'', VInt 0),
          (''iops'', VInt 300), (''device_name'', VStr ''/dev/sdb'')]" True "[]" "''/dev/sda1''"]
  by (simp add: index_def)

text \<open>An iops value of \<open>-1\<close> is not zero, and is not sent.\<close>

theorem negative_iops_not_carried:
  "expandAutoscalingEbs [VMap [(''delete_on_termination'', VBool True), (''iops'', VInt (- 1))]]
     = Inr (Some \<lparr>DeleteOnTermination = Some True, Encrypted = None, Iops = None,
                  SnapshotId = None, VolumeSize = None, VolumeType = None\<rparr>)"
  by (simp add: expandAutoscalingEbs_def andThen_def assertMap_def assertBool_def index_def
      setIops_def setVolumeType_def setVolumeSize_def setEncrypted_def setSnapshotId_def
      newEbs_def okInt_def okString_def okBool_def)

subsection \<open>What conforming data gives the callbacks\<close>

lemma conformsData_get:
  "conformsData d \<Longrightarrow> map_of resourceSchema k = Some s \<Longrightarrow> conforms s (d_Get d k)"
  by (auto simp: conformsData_def list_all_iff dest: map_of_SomeD)

lemma conforms_string: "conforms (Schema TypeString ss e) v \<Longrightarrow> \<exists>x. v = VStr x"
  by (cases v) simp_all

lemma conforms_bool: "conforms (Schema TypeBool ss e) v \<Longrightarrow> \<exists>b. v = VBool b"
  by (cases v) simp_all

lemma conforms_set:
  "conforms (Schema TypeSet ss e) v \<Longrightarrow> \<exists>xs. v = VSet xs \<and> list_all (conformsElem e) xs"
  by (cases v) simp_all

lemma conforms_list:
  "conforms (Schema TypeList ss e) v \<Longrightarrow> \<exists>xs. v = VList xs \<and> list_all (conformsElem e) xs"
  by (cases v) simp_all

lemma get_string:
  "conformsData d \<Longrightarrow> map_of resourceSchema k = Some (Schema TypeString ss e)
     \<Longrightarrow> \<exists>x. d_Get d k = VStr x"
  using conformsData_get conforms_string by blast

lemma get_bool:
  "conformsData d \<Longrightarrow> map_of resourceSchema k = Some (Schema TypeBool ss e)
     \<Longrightarrow> \<exists>b. d_Get d k = VBool b"
  using conformsData_get conforms_bool by blast

lemma get_set:
  "conformsData d \<Longrightarrow> map_of resourceSchema k = Some (Schema TypeSet ss e)
     \<Longrightarrow> \<exists>xs. d_Get d k = VSet xs \<and> list_all (conformsElem e) xs"
  using conformsData_get conforms_set by blast

lemma get_list:
  "conformsData d \<Longrightarrow> map_of resourceSchema k = Some (Schema TypeList ss e)
     \<Longrightarrow> \<exists>xs. d_Get d k = VList xs \<and> list_all (conformsElem e) xs"
  using conformsData_get conforms_list by blast

lemma getOkString_ok:
  "conformsData d \<Longrightarrow> map_of resourceSchema k = Some (Schema TypeString ss e)
     \<Longrightarrow> \<exists>r. getOkString d k = Inr r"
  using get_string [of d k ss e]
  by (auto simp: getOkString_def d_GetOk_def andThen_def assertString_def)

lemma getOkBool_ok:
  "conformsData d \<Longrightarrow> map_of resourceSchema k = Some (Schema TypeBool ss e)
     \<Longrightarrow> \<exists>r. getOkBool d k = Inr r"
  using get_bool [of d k ss e]
  by (auto simp: getOkBool_def d_GetOk_def andThen_def assertBool_def)

lemma getOkStringSet_ok:
  "conformsData d \<Longrightarrow> map_of resourceSchema k = Some (Schema TypeSet ss e)
     \<Longrightarrow> \<exists>r. getOkStringSet env d k = Inr r"
  using get_set [of d k ss e]
  by (auto simp: getOkStringSet_def d_GetOk_def andThen_def assertSetList_def)

lemma assertString_ok:
  "conformsData d \<Longrightarrow> map_of resourceSchema k = Some (Schema TypeString ss e)
     \<Longrightarrow> \<exists>r. assertString (d_Get d k) = Inr r"
  using get_string [of d k ss e] by (auto simp: assertString_def)

lemma assertBool_ok:
  "conformsData d \<Longrightarrow> map_of resourceSchema k = Some (Schema TypeBool ss e)
     \<Longrightarrow> \<exists>r. assertBool (d_Get d k) = Inr r"
  using get_bool [of d k ss e] by (auto simp: assertBool_def)

lemma schema_lookups:
  "map_of resourceSchema ''name'' = Some (Schema TypeString [Optional, Computed, ForceNew, ConflictsWith [''name_prefix'']] NoElem)"
  "map_of resourceSchema ''name_prefix'' = Some (Schema TypeString [Optional, ForceNew] NoElem)"
  "map_of resourceSchema ''image_id'' = Some (Schema TypeString [Required, ForceNew] NoElem)"
  "map_of resourceSchema ''instance_type'' = Some (Schema TypeString [Required, ForceNew] NoElem)"
  "map_of resourceSchema ''iam_instance_profile'' = Some (Schema TypeString [Optional, ForceNew] NoElem)"
  "map_of resourceSchema ''key_name'' = Some (Schema TypeString [Optional, Computed, ForceNew] NoElem)"
  "map_of resourceSchema ''user_data'' = Some (Schema TypeString [Optional, ForceNew] NoElem)"
  "map_of resourceSchema ''security_groups'' = Some (Schema TypeSet [Optional, ForceNew] (ElemSchema (Schema TypeString [] NoElem)))"
  "map_of resourceSchema ''vpc_classic_link_id'' = Some (Schema TypeString [Optional, ForceNew] NoElem)"
  "map_of resourceSchema ''vpc_classic_link_security_groups'' = Some (Schema TypeSet [Optional, ForceNew] (ElemSchema (Schema TypeString [] NoElem)))"
  "map_of resourceSchema ''associate_public_ip_address'' = Some (Schema TypeBool [Optional, ForceNew, Default (VBool False)] NoElem)"
  "map_of resourceSchema ''spot_price'' = Some (Schema TypeString [Optional, ForceNew] NoElem)"
  "map_of resourceSchema ''ebs_optimized'' = Some (Schema TypeBool [Optional, ForceNew, Computed] NoElem)"
  "map_of resourceSchema ''placement_tenancy'' = Some (Schema TypeString [Optional, ForceNew] NoElem)"
  "map_of resourceSchema ''enable_monitoring'' = Some (Schema TypeBool [Optional, ForceNew, Default (VBool True)] NoElem)"
  "map_of resourceSchema ''block_device_mapping'' = Some (Schema TypeSet [Optional, ForceNew, ConflictsWith [''ebs_block_device'', ''ephemeral_block_device'', ''root_block_device'']] (ElemResource blockDeviceMappingSchema))"
  "map_of resourceSchema ''ebs_block_device'' = Some (Schema TypeSet [Optional, Computed, Deprecated] (ElemResource ebsBlockDeviceSchema))"
  "map_of resourceSchema ''ephemeral_block_device'' = Some (Schema TypeSet [Optional, ForceNew, Deprecated] (ElemResource ephemeralBlockDeviceSchema))"
  "map_of resourceSchema ''root_block_device'' = Some (Schema TypeList [Optional, Computed, MaxItems 1, Deprecated] (ElemResource rootBlockDeviceSchema))"
  by (simp_all add: resourceSchema_def)

lemma createLaunchConfigurationOpts_ok:
  assumes "conformsData d"
  shows "\<exists>opts. createLaunchConfigurationOpts env d = Inr opts"
proof -
  note c = assms
  obtain a1 where a1: "assertString (d_Get d ''name'') = Inr a1"
    using assertString_ok [OF c schema_lookups(1)] by blast
  obtain a2 where a2: "assertString (d_Get d ''image_id'') = Inr a2"
    using assertString_ok [OF c schema_lookups(3)] by blast
  obtain a3 where a3: "assertString (d_Get d ''instance_type'') = Inr a3"
    using assertString_ok [OF c schema_lookups(4)] by blast
  obtain a4 where a4: "assertBool (d_Get d ''ebs_optimized'') = Inr a4"
    using assertBool_ok [OF c schema_lookups(13)] by blast
  obtain a5 where a5: "getOkString d ''user_data'' = Inr a5"
    using getOkString_ok [OF c schema_lookups(7)] by blast
  obtain a6 where a6: "assertBool (d_Get d ''enable_monitoring'') = Inr a6"
    using assertBool_ok [OF c schema_lookups(15)] by blast
  obtain a7 where a7: "getOkString d ''iam_instance_profile'' = Inr a7"
    using getOkString_ok [OF c schema_lookups(5)] by blast
  obtain a8 where a8: "getOkString d ''placement_tenancy'' = Inr a8"
    using getOkString_ok [OF c schema_lookups(14)] by blast
  obtain a9 where a9: "getOkBool d ''associate_public_ip_address'' = Inr a9"
    using getOkBool_ok [OF c schema_lookups(11)] by blast
  obtain a10 where a10: "getOkString d ''key_name'' = Inr a10"
    using getOkString_ok [OF c schema_lookups(6)] by blast
  obtain a11 where a11: "getOkString d ''spot_price'' = Inr a11"
    using getOkString_ok [OF c schema_lookups(12)] by blast
  obtain a12 where a12: "getOkStringSet env d ''security_groups'' = Inr a12"
    using getOkStringSet_ok [OF c schema_lookups(8)] by blast
  obtain a13 where a13: "getOkString d ''vpc_classic_link_id'' = Inr a13"
    using getOkString_ok [OF c schema_lookups(9)] by blast
  obtain a14 where a14: "getOkStringSet env d ''vpc_classic_link_security_groups'' = Inr a14"
    using getOkStringSet_ok [OF c schema_lookups(10)] by blast
  show ?thesis
    unfolding createLaunchConfigurationOpts_def
    by (simp add: a1 a2 a3 a4 a5 a6 a7 a8 a9 a10 a11 a12 a13 a14 andThen_def)
qed

subsection \<open>The consolidated field \<open>block_device_mapping\<close>\<close>

lemma conformsFields_lookup:
  "conformsFields fs m \<Longrightarrow> map_of fs k = Some s \<Longrightarrow> \<exists>v. map_of m k = Some v \<and> conforms s v"
  by (induction fs) (auto split: if_splits option.splits)

lemma bdm_entry_fields:
  assumes "conformsFields blockDeviceMappingSchema m"
  shows "\<exists>b x. map_of m ''is_root_device'' = Some (VBool b) \<and> map_of m ''device_name'' = Some (VStr x)"
proof -
  have "\<exists>v. map_of m ''is_root_device'' = Some v \<and> conforms (Schema TypeBool [Optional, ForceNew] NoElem) v"
    by (rule conformsFields_lookup [OF assms]) (simp add: blockDeviceMappingSchema_def)
  moreover have "\<exists>v. map_of m ''device_name'' = Some v \<and> conforms (Schema TypeString [Optional, ForceNew] NoElem) v"
    by (rule conformsFields_lookup [OF assms]) (simp add: blockDeviceMappingSchema_def)
  ultimately show ?thesis
    using conforms_bool conforms_string by blast
qed

lemma expandEntry_nil:
  assumes "map_of m ''is_root_device'' = Some (VBool b)" and "map_of m ''device_name'' = Some (VStr x)"
  shows "expandEntry env amiId (VMap m) None tr
           = (Inl (Panic NilDereference), if b then tr @ [FetchRootDeviceName amiId] else tr)"
  using assms
  by (simp add: expandEntry_def assertMap_def expandIsRootDevice_def assertBool_def assign_def
      expandDeviceName_def andThen_def assertString_def Let_def)

lemma expand_nil:
  assumes "map_of m ''is_root_device'' = Some (VBool b)" and "map_of m ''device_name'' = Some (VStr x)"
  shows "expandAutoscalingBlockDeviceMappings env (VMap m # rest) amiId tr
           = (Inl (Panic NilDereference), if b then tr @ [FetchRootDeviceName amiId] else tr)"
  by (simp add: expandAutoscalingBlockDeviceMappings_def at_def expandEntry_nil [OF assms])

lemma createRequest_block_device_mapping:
  assumes c: "conformsData d" and ok: "snd (d_GetOk d ''block_device_mapping'')"
  shows "createRequest env d tr = (Inl (Panic TypeAssertion), tr)"
proof -
  obtain opts where o: "createLaunchConfigurationOpts env d = Inr opts"
    using createLaunchConfigurationOpts_ok [OF c] by blast
  obtain amiId where a: "d_Get d ''image_id'' = VStr amiId"
    using get_string [OF c, of "''image_id''"] by (auto simp: resourceSchema_def)
  obtain xs where x: "d_Get d ''block_device_mapping'' = VSet xs"
    using get_set [OF c, of "''block_device_mapping''"] by (auto simp: resourceSchema_def)
  have "createBlockDeviceMappings env d opts tr = (Inl (Panic TypeAssertion), tr)"
    using ok a x
    by (simp add: createBlockDeviceMappings_def d_GetOk_def assertString_def assertList_def)
  then show ?thesis
    by (simp add: createRequest_def o)
qed

text \<open>
  C4. A configuration with a non-empty \<open>block_device_mapping\<close> never reaches the creation
  request: \<open>d.GetOk\<close> yields a \<open>*schema.Set\<close>, the assertion to \<open>[]interface{}\<close>
  panics, and no call has been made by then. And
  \<open>expandAutoscalingBlockDeviceMappings\<close> itself panics on every list whose first entry
  is a map with the attributes of the block: it assigns through \<open>out[0]\<close>, which is nil
  (after the root-device lookup when the entry is marked as the root device).
\<close>

theorem block_device_mapping_always_panics:
  "conformsData d \<Longrightarrow> snd (d_GetOk d ''block_device_mapping'') \<Longrightarrow>
     resourceAwsLaunchConfigurationCreate env d tr = (Inl (Panic TypeAssertion), d, tr)
     \<and> (\<forall>m rest amiId t. conformsFields blockDeviceMappingSchema m \<longrightarrow>
          expandAutoscalingBlockDeviceMappings env (VMap m # rest) amiId t
            = (Inl (Panic NilDereference),
               if index m ''is_root_device'' = VBool True then t @ [FetchRootDeviceName amiId] else t))"
proof (intro conjI allI impI)
  assume "conformsData d" and "snd (d_GetOk d ''block_device_mapping'')"
  then show "resourceAwsLaunchConfigurationCreate env d tr = (Inl (Panic TypeAssertion), d, tr)"
    by (simp add: resourceAwsLaunchConfigurationCreate_def createRequest_block_device_mapping)
next
  fix m rest amiId t
  assume "conformsFields blockDeviceMappingSchema m"
  then obtain b x where f: "map_of m ''is_root_device'' = Some (VBool b)"
      "map_of m ''device_name'' = Some (VStr x)"
    using bdm_entry_fields by blast
  show "expandAutoscalingBlockDeviceMappings env (VMap m # rest) amiId t
            = (Inl (Panic NilDereference),
               if index m ''is_root_device'' = VBool True then t @ [FetchRootDeviceName amiId] else t)"
    using expand_nil [OF f, of env rest amiId t] f by (simp add: index_def)
qed

lemma mappingConfig_conforms: "conformsData mappingConfig"
  by (simp add: conformsData_def mappingConfig_def mappingEntry_def resourceSchema_def d_Get_def
      zeroValue_def blockDeviceMappingSchema_def ebsSchema_def)

theorem block_device_mapping_always_panics_witness:
  "resourceAwsLaunchConfigurationCreate exampleEnv mappingConfig []
     = (Inl (Panic TypeAssertion), mappingConfig, [])
   \<and> expandAutoscalingBlockDeviceMappings exampleEnv [VMap mappingEntry] ''ami-1'' []
     = (Inl (Panic NilDereference), [])"
proof -
  have ok: "snd (d_GetOk mappingConfig ''block_device_mapping'')"
    by (simp add: d_GetOk_def d_Get_def mappingConfig_def isZero_def)
  have f: "conformsFields blockDeviceMappingSchema mappingEntry"
    by (simp add: mappingEntry_def blockDeviceMappingSchema_def ebsSchema_def)
  have r: "index mappingEntry ''is_root_device'' \<noteq> VBool True"
    by (simp add: mappingEntry_def index_def)
  show ?thesis
    using block_device_mapping_always_panics [OF mappingConfig_conforms ok, of exampleEnv "[]"] f r
    by simp
qed

text \<open>
  C3. The round trip stops in its first half: on a list with one entry named
  \<open>/dev/sdb\<close>, with an 8 GiB \<open>gp2\<close> volume, \<open>expandAutoscalingBlockDeviceMappings\<close> panics
  on the assignment through the nil \<open>out[0]\<close>, so nothing is left to flatten.
\<close>

theorem round_trip_stops_in_expand:
  "expandAutoscalingBlockDeviceMappings exampleEnv [VMap mappingEntry] ''ami-1'' []
     = (Inl (Panic NilDereference), [])"
  by (simp add: expand_nil [where b = False and x = "''/dev/sdb''"] mappingEntry_def)

subsection \<open>Reading the block devices back\<close>

lemma readEntry_cases:
  "readEntry r b acc =
     (if DeviceName b = Some r then acc\<lparr>bd_root := Some (rootRecord b)\<rparr>
      else if VirtualName b \<noteq> None then acc\<lparr>bd_ephemeral := bd_ephemeral acc @ [ephemeralRecord b]\<rparr>
      else acc\<lparr>bd_ebs := bd_ebs acc @ [ebsRecord b]\<rparr>)"
  by (auto simp: readEntry_def rootRecord_def deviceRecord_def ephemeralRecord_def ebsRecord_def
      Let_def split: option.splits)

lemma readLoop_classifies:
  "readLoop r (map Some bs) acc =
     Inr \<lparr>bd_ebs = bd_ebs acc
             @ map ebsRecord (filter (\<lambda>b. DeviceName b \<noteq> Some r \<and> VirtualName b = None) bs),
          bd_ephemeral = bd_ephemeral acc
             @ map ephemeralRecord (filter (\<lambda>b. DeviceName b \<noteq> Some r \<and> VirtualName b \<noteq> None) bs),
          bd_root = (case filter (\<lambda>b. DeviceName b = Some r) bs of
                       [] \<Rightarrow> bd_root acc
                     | x # xs \<Rightarrow> Some (rootRecord (last (x # xs))))\<rparr>"
proof (induction bs arbitrary: acc)
  case Nil
  then show ?case by simp
next
  case (Cons b bs)
  show ?case
    by (simp add: Cons.IH readEntry_cases split: list.splits)
qed

text \<open>
  C6. \<open>readBlockDevicesFromLaunchConfiguration\<close> on a non-empty list of mappings, with
  the root device name \<open>r\<close> that the lookup gives (the empty string when it gives none):
  the entries named \<open>r\<close> go under \<open>root\<close> (the last of them stays) and into neither
  list; of the others, those with a virtual name make up the list \<open>ephemeral\<close> and those
  without make up the list \<open>ebs\<close>, each in the order of the mappings.
\<close>

theorem root_device_kept_out_of_lists:
  assumes "BlockDeviceMappings lc = map Some bs" and "bs \<noteq> []"
    and "d_Get d ''image_id'' = VStr amiId"
    and "fetchRootDeviceName env tr amiId = Inr ro"
    and "r = (case ro of None \<Rightarrow> [] | Some n \<Rightarrow> n)"
  shows "readBlockDevicesFromLaunchConfiguration env d lc tr =
     (Inr (Some
        \<lparr>bd_ebs = map ebsRecord (filter (\<lambda>b. DeviceName b \<noteq> Some r \<and> VirtualName b = None) bs),
         bd_ephemeral =
           map ephemeralRecord (filter (\<lambda>b. DeviceName b \<noteq> Some r \<and> VirtualName b \<noteq> None) bs),
         bd_root = (case filter (\<lambda>b. DeviceName b = Some r) bs of
                      [] \<Rightarrow> None
                    | x # xs \<Rightarrow> Some (rootRecord (last (x # xs))))\<rparr>),
      tr @ [FetchRootDeviceName amiId])"
  using assms
  by (simp add: readBlockDevicesFromLaunchConfiguration_def assertString_def readLoop_classifies Let_def
      cong: list.case_cong)

lemma example_records:
  "rootRecord rootMapping
     = [(''delete_on_termination'', VBool True), (''volume_size'', VInt64 8), (''volume_type'', VStr ''gp2'')]"
  "ephemeralRecord ephemeralMapping
     = [(''device_name'', VStr ''/dev/sdb''), (''virtual_name'', VStr ''ephemeral0'')]"
  "ebsRecord dataMapping
     = [(''delete_on_termination'', VBool False), (''volume_size'', VInt64 20),
        (''volume_type'', VStr ''io1''), (''iops'', VInt64 100), (''encrypted'', VBool True),
        (''device_name'', VStr ''/dev/sdc''), (''snapshot_id'', VStr ''snap-1'')]"
  by (simp_all add: rootRecord_def ephemeralRecord_def ebsRecord_def deviceRecord_def ebsField_def
      rootMapping_def ephemeralMapping_def dataMapping_def)

theorem root_device_kept_out_of_lists_witness:
  "readBlockDevicesFromLaunchConfiguration exampleEnv (storedConfig ''lc-1'' ''ami-1'')
       (exampleLC ''lc-1'' ''ami-1'') []
     = (Inr (Some
          \<lparr>bd_ebs = [[(''delete_on_termination'', VBool False), (''volume_size'', VInt64 20),
                       (''volume_type'', VStr ''io1''), (''iops'', VInt64 100),
                       (''encrypted'', VBool True), (''device_name'', VStr ''/dev/sdc''),
                       (''snapshot_id'', VStr ''snap-1'')]],
           bd_ephemeral = [[(''device_name'', VStr ''/dev/sdb''), (''virtual_name'', VStr ''ephemeral0'')]],
           bd_root = Some [(''delete_on_termination'', VBool True), (''volume_size'', VInt64 8),
                           (''volume_type'', VStr ''gp2'')]\<rparr>),
        [FetchRootDeviceName ''ami-1''])"
proof -
  have l: "BlockDeviceMappings (exampleLC ''lc-1'' ''ami-1'')
             = map Some [rootMapping, ephemeralMapping, dataMapping]"
    by (simp add: exampleLC_def)
  have n: "[rootMapping, ephemeralMapping, dataMapping] \<noteq> []" by simp
  have g: "d_Get (storedConfig ''lc-1'' ''ami-1'') ''image_id'' = VStr ''ami-1''"
    by (simp add: d_Get_def storedConfig_def)
  have f: "fetchRootDeviceName exampleEnv [] ''ami-1'' = Inr (Some ''/dev/sda1'')"
    by (simp add: exampleEnv_def)
  have r: "''/dev/sda1'' = (case Some ''/dev/sda1'' of None \<Rightarrow> [] | Some n \<Rightarrow> n)" by simp
  have names: "DeviceName rootMapping = Some ''/dev/sda1''"
    "DeviceName ephemeralMapping = Some ''/dev/sdb''" "DeviceName dataMapping = Some ''/dev/sdc''"
    "VirtualName ephemeralMapping = Some ''ephemeral0''" "VirtualName dataMapping = None"
    by (simp_all add: rootMapping_def ephemeralMapping_def dataMapping_def)
  show ?thesis
    using root_device_kept_out_of_lists [OF l n g f r]
    by (simp add: names example_records)
qed

subsection \<open>Read\<close>

text \<open>
  C9. When the describe call answers with a non-empty list whose first launch
  configuration has a name other than the identifier asked for, Read returns the error
  "Unable to find launch configuration", having made that one call, and leaves the local
  record as it was.
\<close>

theorem read_rejects_other_name:
  "remoteDescribe env tr [d_Id d] = Inr (lc # others) \<Longrightarrow>
   LaunchConfigurationName lc = Some name \<Longrightarrow> name \<noteq> d_Id d \<Longrightarrow>
     resourceAwsLaunchConfigurationRead env d tr
       = (Inl (Failed (UnableToFind (lc # others))), d,
          tr @ [DescribeLaunchConfigurations [d_Id d]])"
  by (simp add: resourceAwsLaunchConfigurationRead_def)

theorem read_rejects_other_name_witness:
  "resourceAwsLaunchConfigurationRead
       (exampleEnv\<lparr>remoteDescribe := \<lambda>tr names. Inr [exampleLC ''lc-2'' ''ami-1'']\<rparr>)
       (storedConfig ''lc-1'' ''ami-1'') []
     = (Inl (Failed (UnableToFind [exampleLC ''lc-2'' ''ami-1''])), storedConfig ''lc-1'' ''ami-1'',
        [DescribeLaunchConfigurations [''lc-1'']])"
  using read_rejects_other_name
    [of "exampleEnv\<lparr>remoteDescribe := \<lambda>tr names. Inr [exampleLC ''lc-2'' ''ami-1'']\<rparr>" "[]"
        "storedConfig ''lc-1'' ''ami-1''" "exampleLC ''lc-2'' ''ami-1''" "[]" "''lc-2''"]
  by (simp add: exampleEnv_def d_Id_def storedConfig_def exampleLC_def)

subsection \<open>An image without a root device name\<close>

lemma flattenEntry_no_root_name:
  "fetchRootDeviceName env tr amiId = Inr None \<Longrightarrow> DeviceName bdm = Some name \<Longrightarrow>
     flattenEntry env amiId (Some bdm) tr
       = (Inl (Panic NilDereference), tr @ [FetchRootDeviceName amiId])"
  by (simp add: flattenEntry_def)

text \<open>
  C10. On an image whose lookup gives no root device name, and mappings whose first has
  a device name: \<open>flattenAutoscalingBlockDeviceMappings\<close> dereferences the nil name and
  panics, while \<open>readBlockDevicesFromLaunchConfiguration\<close> and the deprecated path of
  Create go on with the empty string for the name.
\<close>

theorem flatten_dereferences_missing_root_name:
  "fetchRootDeviceName env tr amiId = Inr None \<Longrightarrow> DeviceName bdm = Some name \<Longrightarrow>
     flattenAutoscalingBlockDeviceMappings env (map Some (bdm # bs)) amiId tr
       = (Inl (Panic NilDereference), tr @ [FetchRootDeviceName amiId])
     \<and> (\<forall>d lc. d_Get d ''image_id'' = VStr amiId \<and> BlockDeviceMappings lc = map Some (bdm # bs) \<longrightarrow>
          (\<exists>b. readLoop [] (map Some (bdm # bs)) \<lparr>bd_ebs = [], bd_ephemeral = [], bd_root = None\<rparr>
                  = Inr b
              \<and> readBlockDevicesFromLaunchConfiguration env d lc tr
                  = (Inr (Some b), tr @ [FetchRootDeviceName amiId])))
     \<and> (\<forall>d vL. d_Get d ''image_id'' = VStr amiId \<and> d_GetOk d ''ebs_block_device'' = (VSet vL, True)
               \<and> \<not> snd (d_GetOk d ''ephemeral_block_device'')
               \<and> \<not> snd (d_GetOk d ''root_block_device'') \<longrightarrow>
          deprecatedBlockDevices env d tr
            = (ebsBlockDevices [] vL [], tr @ [FetchRootDeviceName amiId]))"
proof (intro conjI allI impI)
  assume f: "fetchRootDeviceName env tr amiId = Inr None" and n: "DeviceName bdm = Some name"
  show "flattenAutoscalingBlockDeviceMappings env (map Some (bdm # bs)) amiId tr
       = (Inl (Panic NilDereference), tr @ [FetchRootDeviceName amiId])"
    by (simp add: flattenAutoscalingBlockDeviceMappings_def flattenEntry_no_root_name [OF f n])
next
  fix d and lc :: LaunchConfiguration
  assume f: "fetchRootDeviceName env tr amiId = Inr None"
    and h: "d_Get d ''image_id'' = VStr amiId \<and> BlockDeviceMappings lc = map Some (bdm # bs)"
  obtain b where b: "readLoop [] (map Some (bdm # bs))
      \<lparr>bd_ebs = [], bd_ephemeral = [], bd_root = None\<rparr> = Inr b"
    using readLoop_classifies [of "[]" "bdm # bs"] by blast
  have "readBlockDevicesFromLaunchConfiguration env d lc tr
          = (Inr (Some b), tr @ [FetchRootDeviceName amiId])"
    using f h b by (simp add: readBlockDevicesFromLaunchConfiguration_def assertString_def)
  with b show "\<exists>b. readLoop [] (map Some (bdm # bs)) \<lparr>bd_ebs = [], bd_ephemeral = [], bd_root = None\<rparr>
                  = Inr b
              \<and> readBlockDevicesFromLaunchConfiguration env d lc tr
                  = (Inr (Some b), tr @ [FetchRootDeviceName amiId])"
    by blast
next
  fix d vL
  assume f: "fetchRootDeviceName env tr amiId = Inr None"
    and h: "d_Get d ''image_id'' = VStr amiId \<and> d_GetOk d ''ebs_block_device'' = (VSet vL, True)
               \<and> \<not> snd (d_GetOk d ''ephemeral_block_device'')
               \<and> \<not> snd (d_GetOk d ''root_block_device'')"
  show "deprecatedBlockDevices env d tr = (ebsBlockDevices [] vL [], tr @ [FetchRootDeviceName amiId])"
    using f h
    by (cases "ebsBlockDevices [] vL []")
      (simp_all add: deprecatedBlockDevices_def assertString_def assertSetList_def andThen_def
        Let_def case_prod_beta)
qed

theorem flatten_dereferences_missing_root_name_witness:
  "flattenAutoscalingBlockDeviceMappings exampleEnv
       [Some rootMapping, Some ephemeralMapping, Some dataMapping] ''ami-2'' []
     = (Inl (Panic NilDereference), [FetchRootDeviceName ''ami-2''])
   \<and> readBlockDevicesFromLaunchConfiguration exampleEnv (storedConfig ''lc-1'' ''ami-2'')
         (exampleLC ''lc-1'' ''ami-2'') []
     = (Inr (Some \<lparr>bd_ebs = [ebsRecord rootMapping, ebsRecord dataMapping],
                   bd_ephemeral = [ephemeralRecord ephemeralMapping], bd_root = None\<rparr>),
        [FetchRootDeviceName ''ami-2''])
   \<and> deprecatedBlockDevices exampleEnv (deprecatedConfig ''ami-2'' [''/dev/sda1'']) []
     = (Inr [Some \<lparr>DeviceName = Some ''/dev/sda1'',
                   Ebs = Some \<lparr>DeleteOnTermination = Some True, Encrypted = None, Iops = None,
                               SnapshotId = None, VolumeSize = Some 10, VolumeType = Some ''gp2''\<rparr>,
                   NoDevice = None, VirtualName = None\<rparr>],
        [FetchRootDeviceName ''ami-2''])"
proof -
  have f: "fetchRootDeviceName exampleEnv [] ''ami-2'' = Inr None"
    by (simp add: exampleEnv_def)
  have n: "DeviceName rootMapping = Some ''/dev/sda1''"
    by (simp add: rootMapping_def)
  have g: "d_Get (storedConfig ''lc-1'' ''ami-2'') ''image_id'' = VStr ''ami-2''"
    "d_Get (deprecatedConfig ''ami-2'' [''/dev/sda1'']) ''image_id'' = VStr ''ami-2''"
    by (simp_all add: d_Get_def storedConfig_def deprecatedConfig_def)
  have l: "BlockDeviceMappings (exampleLC ''lc-1'' ''ami-2'')
             = map Some (rootMapping # [ephemeralMapping, dataMapping])"
    by (simp add: exampleLC_def)
  have names: "DeviceName ephemeralMapping = Some ''/dev/sdb''" "DeviceName dataMapping = Some ''/dev/sdc''"
    "VirtualName rootMapping = None"
    "VirtualName ephemeralMapping = Some ''ephemeral0''" "VirtualName dataMapping = None"
    by (simp_all add: rootMapping_def ephemeralMapping_def dataMapping_def)
  have loop: "readLoop [] (map Some (rootMapping # [ephemeralMapping, dataMapping]))
                \<lparr>bd_ebs = [], bd_ephemeral = [], bd_root = None\<rparr>
              = Inr \<lparr>bd_ebs = [ebsRecord rootMapping, ebsRecord dataMapping],
                     bd_ephemeral = [ephemeralRecord ephemeralMapping], bd_root = None\<rparr>"
    by (simp add: readEntry_cases n names)
  have k: "d_GetOk (deprecatedConfig ''ami-2'' [''/dev/sda1'']) ''ebs_block_device''
             = (VSet [ebsDeviceEntry ''/dev/sda1''], True)"
    "\<not> snd (d_GetOk (deprecatedConfig ''ami-2'' [''/dev/sda1'']) ''ephemeral_block_device'')"
    "\<not> snd (d_GetOk (deprecatedConfig ''ami-2'' [''/dev/sda1'']) ''root_block_device'')"
    by (simp_all add: d_GetOk_def d_Get_def deprecatedConfig_def isZero_def resourceSchema_def
        zeroValue_def)
  have e: "ebsBlockDevices [] [ebsDeviceEntry ''/dev/sda1''] []
             = Inr [Some \<lparr>DeviceName = Some ''/dev/sda1'',
                   Ebs = Some \<lparr>DeleteOnTermination = Some True, Encrypted = None, Iops = None,
                               SnapshotId = None, VolumeSize = Some 10, VolumeType = Some ''gp2''\<rparr>,
                   NoDevice = None, VirtualName = None\<rparr>]"
    by (simp add: ebsBlockDevice_def ebsDeviceEntry_def andThen_def assertMap_def assertBool_def
        assertString_def index_def setIops_def setVolumeType_def setVolumeSize_def setEncrypted_def
        setSnapshotId_def newEbs_def okInt_def okString_def okBool_def)
  show ?thesis
    using flatten_dereferences_missing_root_name
      [OF f n, of "[ephemeralMapping, dataMapping]"] g l loop k e
    by (simp del: readLoop.simps)
qed

subsection \<open>Create: the root device declared as an \<open>ebs_block_device\<close>\<close>

lemma ebs_entry_fields:
  assumes "conformsFields ebsBlockDeviceSchema m"
  shows "\<exists>b x. map_of m ''delete_on_termination'' = Some (VBool b)
           \<and> map_of m ''device_name'' = Some (VStr x)"
proof -
  have "\<exists>v. map_of m ''delete_on_termination'' = Some v
          \<and> conforms (Schema TypeBool [Optional, Default (VBool True), ForceNew] NoElem) v"
    by (rule conformsFields_lookup [OF assms]) (simp add: ebsBlockDeviceSchema_def)
  moreover have "\<exists>v. map_of m ''device_name'' = Some v
          \<and> conforms (Schema TypeString [Required, ForceNew] NoElem) v"
    by (rule conformsFields_lookup [OF assms]) (simp add: ebsBlockDeviceSchema_def)
  ultimately show ?thesis
    using conforms_bool conforms_string by blast
qed

lemma ebsBlockDevice_conforming:
  assumes "conformsElem (ElemResource ebsBlockDeviceSchema) v"
  shows "\<exists>m name. v = VMap m \<and> index m ''device_name'' = VStr name
           \<and> (if name = r then ebsBlockDevice r v = Inl (Failed (RootDeviceDeclaredAsEbs r))
               else (\<exists>bdm. ebsBlockDevice r v = Inr bdm))"
proof -
  from assms obtain m where v: "v = VMap m" and c: "conformsFields ebsBlockDeviceSchema m"
    by (cases v) simp_all
  from ebs_entry_fields [OF c] obtain b x where
    f: "map_of m ''delete_on_termination'' = Some (VBool b)" "map_of m ''device_name'' = Some (VStr x)"
    by blast
  show ?thesis
    using v f
    by (simp add: ebsBlockDevice_def andThen_def assertMap_def assertBool_def assertString_def
        index_def)
qed

lemma ebsBlockDevices_rejects:
  "list_all (conformsElem (ElemResource ebsBlockDeviceSchema)) vL \<Longrightarrow> VMap m \<in> set vL \<Longrightarrow>
   index m ''device_name'' = VStr r \<Longrightarrow>
     ebsBlockDevices r vL acc = Inl (Failed (RootDeviceDeclaredAsEbs r))"
proof (induction vL arbitrary: acc)
  case Nil
  then show ?case by simp
next
  case (Cons v vL)
  from Cons.prems(1) have cv: "conformsElem (ElemResource ebsBlockDeviceSchema) v"
    and cl: "list_all (conformsElem (ElemResource ebsBlockDeviceSchema)) vL"
    by (simp_all del: conformsElem.simps)
  from ebsBlockDevice_conforming [OF cv, of r] obtain m' name where
    v: "v = VMap m'" and n: "index m' ''device_name'' = VStr name"
    and e: "if name = r then ebsBlockDevice r v = Inl (Failed (RootDeviceDeclaredAsEbs r))
            else (\<exists>bdm. ebsBlockDevice r v = Inr bdm)"
    by blast
  show ?case
  proof (cases "name = r")
    case True
    with e show ?thesis by simp
  next
    case False
    with e obtain bdm where b: "ebsBlockDevice r v = Inr bdm" by auto
    from False v n Cons.prems(2,3) have "VMap m \<in> set vL" by auto
    from Cons.IH [OF cl this Cons.prems(3)] b show ?thesis by simp
  qed
qed

lemma createRequest_rejects_root_device:
  assumes c: "conformsData d"
    and nb: "\<not> snd (d_GetOk d ''block_device_mapping'')"
    and g: "d_Get d ''image_id'' = VStr amiId"
    and f: "fetchRootDeviceName env tr amiId = Inr ro"
    and r: "r = (case ro of None \<Rightarrow> [] | Some n \<Rightarrow> n)"
    and e: "d_Get d ''ebs_block_device'' = VSet vL"
    and m: "VMap m \<in> set vL" "index m ''device_name'' = VStr r"
  shows "createRequest env d tr
           = (Inl (Failed (RootDeviceDeclaredAsEbs r)), tr @ [FetchRootDeviceName amiId])"
proof -
  obtain opts where o: "createLaunchConfigurationOpts env d = Inr opts"
    using createLaunchConfigurationOpts_ok [OF c] by blast
  have "list_all (conformsElem (ElemResource ebsBlockDeviceSchema)) vL"
    using get_set [OF c schema_lookups(17)] e by simp
  then have rej: "ebsBlockDevices r vL [] = Inl (Failed (RootDeviceDeclaredAsEbs r))"
    using m by (rule ebsBlockDevices_rejects)
  have ok: "d_GetOk d ''ebs_block_device'' = (VSet vL, True)"
    using e m(1) by (auto simp: d_GetOk_def isZero_def)
  have "deprecatedBlockDevices env d tr
          = (Inl (Failed (RootDeviceDeclaredAsEbs r)), tr @ [FetchRootDeviceName amiId])"
    using g f r ok rej
    by (simp add: deprecatedBlockDevices_def assertString_def assertSetList_def andThen_def Let_def)
  then have "createBlockDeviceMappings env d opts tr
          = (Inl (Failed (RootDeviceDeclaredAsEbs r)), tr @ [FetchRootDeviceName amiId])"
    using nb by (simp add: createBlockDeviceMappings_def case_prod_beta)
  then show ?thesis
    by (simp add: createRequest_def o)
qed

lemma deprecatedConfig_conforms: "conformsData (deprecatedConfig amiId [a, b])"
  by (simp add: conformsData_def deprecatedConfig_def resourceSchema_def d_Get_def zeroValue_def
      ebsBlockDeviceSchema_def ebsDeviceEntry_def)

text \<open>
  C1. A configuration of the schema's types that leaves \<open>block_device_mapping\<close> unset and
  has, in \<open>ebs_block_device\<close>, an entry named as the root device of the image (the empty
  string when the image has none): Create returns the error "Root device ... declared as
  an 'ebs\_block\_device'", the local record is unchanged, and the one call made is the
  lookup of the root device name; no creation request is sent.
\<close>

theorem root_device_as_ebs_rejected:
  "conformsData d \<Longrightarrow> \<not> snd (d_GetOk d ''block_device_mapping'') \<Longrightarrow>
   d_Get d ''image_id'' = VStr amiId \<Longrightarrow> fetchRootDeviceName env tr amiId = Inr ro \<Longrightarrow>
   r = (case ro of None \<Rightarrow> [] | Some n \<Rightarrow> n) \<Longrightarrow>
   d_Get d ''ebs_block_device'' = VSet vL \<Longrightarrow> VMap m \<in> set vL \<Longrightarrow>
   index m ''device_name'' = VStr r \<Longrightarrow>
     resourceAwsLaunchConfigurationCreate env d tr
       = (Inl (Failed (RootDeviceDeclaredAsEbs r)), d, tr @ [FetchRootDeviceName amiId])"
proof -
  assume "conformsData d" and "\<not> snd (d_GetOk d ''block_device_mapping'')"
    and "d_Get d ''image_id'' = VStr amiId" and "fetchRootDeviceName env tr amiId = Inr ro"
    and "r = (case ro of None \<Rightarrow> [] | Some n \<Rightarrow> n)"
    and "d_Get d ''ebs_block_device'' = VSet vL" and "VMap m \<in> set vL"
    and "index m ''device_name'' = VStr r"
  then have "createRequest env d tr
               = (Inl (Failed (RootDeviceDeclaredAsEbs r)), tr @ [FetchRootDeviceName amiId])"
    by (rule createRequest_rejects_root_device)
  then show ?thesis
    by (simp add: resourceAwsLaunchConfigurationCreate_def)
qed

lemma deprecatedConfig_reads:
  "\<not> snd (d_GetOk (deprecatedConfig amiId names) ''block_device_mapping'')"
  "d_Get (deprecatedConfig amiId names) ''image_id'' = VStr amiId"
  "d_Get (deprecatedConfig amiId names) ''ebs_block_device'' = VSet (map ebsDeviceEntry names)"
  by (simp_all add: d_GetOk_def d_Get_def deprecatedConfig_def isZero_def resourceSchema_def
      zeroValue_def)

theorem root_device_as_ebs_rejected_witness:
  "resourceAwsLaunchConfigurationCreate exampleEnv (deprecatedConfig ''ami-1'' [''/dev/sdb'', ''/dev/sda1'']) []
     = (Inl (Failed (RootDeviceDeclaredAsEbs ''/dev/sda1'')),
        deprecatedConfig ''ami-1'' [''/dev/sdb'', ''/dev/sda1''], [FetchRootDeviceName ''ami-1''])"
proof -
  have f: "fetchRootDeviceName exampleEnv [] ''ami-1'' = Inr (Some ''/dev/sda1'')"
    by (simp add: exampleEnv_def)
  have r: "''/dev/sda1'' = (case Some ''/dev/sda1'' of None \<Rightarrow> [] | Some n \<Rightarrow> n)" by simp
  have m: "VMap [(''device_name'', VStr ''/dev/sda1''), (''delete_on_termination'', VBool True),
                 (''iops'', VInt 0), (''snapshot_id'', VStr []), (''volume_size'', VInt 10),
                 (''volume_type'', VStr ''gp2''), (''encrypted'', VBool False)]
             \<in> set (map ebsDeviceEntry [''/dev/sdb'', ''/dev/sda1''])"
    by (simp add: ebsDeviceEntry_def)
  have i: "index [(''device_name'', VStr ''/dev/sda1''), (''delete_on_termination'', VBool True),
                 (''iops'', VInt 0), (''snapshot_id'', VStr []), (''volume_size'', VInt 10),
                 (''volume_type'', VStr ''gp2''), (''encrypted'', VBool False)] ''device_name''
             = VStr ''/dev/sda1''"
    by (simp add: index_def)
  show ?thesis
    using root_device_as_ebs_rejected
      [OF deprecatedConfig_conforms deprecatedConfig_reads(1) deprecatedConfig_reads(2) f r
          deprecatedConfig_reads(3) m i]
    by simp
qed

text \<open>The rejection comes after a call has left the process: the lookup of the root
  device name of the image.\<close>

theorem rejection_follows_root_device_lookup:
  "resourceAwsLaunchConfigurationCreate exampleEnv (deprecatedConfig ''ami-1'' [''/dev/sda1'', ''/dev/sdc'']) []
     = (Inl (Failed (RootDeviceDeclaredAsEbs ''/dev/sda1'')),
        deprecatedConfig ''ami-1'' [''/dev/sda1'', ''/dev/sdc''], [FetchRootDeviceName ''ami-1''])
   \<and> [FetchRootDeviceName ''ami-1''] \<noteq> []"
proof -
  have f: "fetchRootDeviceName exampleEnv [] ''ami-1'' = Inr (Some ''/dev/sda1'')"
    by (simp add: exampleEnv_def)
  have r: "''/dev/sda1'' = (case Some ''/dev/sda1'' of None \<Rightarrow> [] | Some n \<Rightarrow> n)" by simp
  have m: "VMap [(''device_name'', VStr ''/dev/sda1''), (''delete_on_termination'', VBool True),
                 (''iops'', VInt 0), (''snapshot_id'', VStr []), (''volume_size'', VInt 10),
                 (''volume_type'', VStr ''gp2''), (''encrypted'', VBool False)]
             \<in> set (map ebsDeviceEntry [''/dev/sda1'', ''/dev/sdc''])"
    by (simp add: ebsDeviceEntry_def)
  have i: "index [(''device_name'', VStr ''/dev/sda1''), (''delete_on_termination'', VBool True),
                 (''iops'', VInt 0), (''snapshot_id'', VStr []), (''volume_size'', VInt 10),
                 (''volume_type'', VStr ''gp2''), (''encrypted'', VBool False)] ''device_name''
             = VStr ''/dev/sda1''"
    by (simp add: index_def)
  show ?thesis
    using createRequest_rejects_root_device
      [OF deprecatedConfig_conforms deprecatedConfig_reads(1) deprecatedConfig_reads(2) f r
          deprecatedConfig_reads(3) m i]
    by (simp add: resourceAwsLaunchConfigurationCreate_def)
qed

subsection \<open>Create: the two retries\<close>

lemma createAttempt_classifies:
  "createAttempt env opts t =
     (case remoteCreate env t opts of
        None \<Rightarrow> (Inr None, t @ [CreateLaunchConfiguration opts])
      | Some err \<Rightarrow>
          (Inr (Some (if retryableCreateError env err then RetryableError err
                      else NonRetryableError err)),
           t @ [CreateLaunchConfiguration opts]))"
  by (auto simp: createAttempt_def retryableCreateError_def Let_def split: option.splits)

lemma Retry_create_trace:
  "Retry n (createAttempt env opts) t = (r, t') \<Longrightarrow>
     \<exists>k. 1 \<le> k \<and> k \<le> Suc n \<and> t' = t @ replicate k (CreateLaunchConfiguration opts)"
proof (induction n arbitrary: t)
  case 0
  then have "t' = t @ replicate 1 (CreateLaunchConfiguration opts)"
    by (auto simp: createAttempt_classifies split: option.splits if_splits)
  then show ?case by (intro exI [of _ 1]) simp
next
  case (Suc n)
  show ?case
  proof (cases "\<exists>err. remoteCreate env t opts = Some err \<and> retryableCreateError env err")
    case True
    then have "Retry (Suc n) (createAttempt env opts) t
                 = Retry n (createAttempt env opts) (t @ [CreateLaunchConfiguration opts])"
      by (auto simp: createAttempt_classifies)
    with Suc.prems have "Retry n (createAttempt env opts) (t @ [CreateLaunchConfiguration opts]) = (r, t')"
      by simp
    from Suc.IH [OF this] obtain k where k: "1 \<le> k" "k \<le> Suc n"
        "t' = (t @ [CreateLaunchConfiguration opts]) @ replicate k (CreateLaunchConfiguration opts)"
      by blast
    then have "t' = t @ replicate (Suc k) (CreateLaunchConfiguration opts)"
      by simp
    with k show ?thesis by (intro exI [of _ "Suc k"]) simp
  next
    case False
    with Suc.prems have "t' = t @ replicate 1 (CreateLaunchConfiguration opts)"
      by (auto simp: createAttempt_classifies split: option.splits if_splits)
    then show ?thesis by (intro exI [of _ 1]) simp
  qed
qed

lemma Retry_create_skip:
  "k \<le> n \<Longrightarrow>
   (\<forall>j<k. \<exists>e. remoteCreate env (t @ replicate j (CreateLaunchConfiguration opts)) opts = Some e
            \<and> retryableCreateError env e) \<Longrightarrow>
     Retry n (createAttempt env opts) t
       = Retry (n - k) (createAttempt env opts) (t @ replicate k (CreateLaunchConfiguration opts))"
proof (induction k arbitrary: n t)
  case 0
  then show ?case by simp
next
  case (Suc k)
  then obtain n' where n: "n = Suc n'" and kn: "k \<le> n'"
    by (cases n) auto
  from Suc.prems(2) have "\<exists>e. remoteCreate env (t @ replicate 0 (CreateLaunchConfiguration opts)) opts = Some e
            \<and> retryableCreateError env e"
    by blast
  then have first: "Retry (Suc n') (createAttempt env opts) t
                 = Retry n' (createAttempt env opts) (t @ [CreateLaunchConfiguration opts])"
    by (auto simp: createAttempt_classifies)
  have "\<forall>j<k. \<exists>e. remoteCreate env ((t @ [CreateLaunchConfiguration opts])
                     @ replicate j (CreateLaunchConfiguration opts)) opts = Some e
            \<and> retryableCreateError env e"
  proof (intro allI impI)
    fix j assume "j < k"
    then have "Suc j < Suc k" by simp
    with Suc.prems(2) have "\<exists>e. remoteCreate env (t @ replicate (Suc j) (CreateLaunchConfiguration opts)) opts = Some e
            \<and> retryableCreateError env e" by blast
    then show "\<exists>e. remoteCreate env ((t @ [CreateLaunchConfiguration opts])
                     @ replicate j (CreateLaunchConfiguration opts)) opts = Some e
            \<and> retryableCreateError env e" by simp
  qed
  from Suc.IH [OF kn this] first n show ?case by simp
qed

lemma Retry_create_last:
  "Retry n (createAttempt env opts) t =
     (case remoteCreate env t opts of
        None \<Rightarrow> (Inr (), t @ [CreateLaunchConfiguration opts])
      | Some err \<Rightarrow>
          if retryableCreateError env err
          then (case n of 0 \<Rightarrow> (Inl (Failed err), t @ [CreateLaunchConfiguration opts])
                | Suc m \<Rightarrow> Retry m (createAttempt env opts) (t @ [CreateLaunchConfiguration opts]))
          else (Inl (Failed err), t @ [CreateLaunchConfiguration opts]))"
  by (cases n) (auto simp: createAttempt_classifies split: option.splits)

lemma calls_append:
  "createCalls (t @ u) = createCalls t + createCalls u"
  "describeCalls (t @ u) = describeCalls t + describeCalls u"
  by (simp_all add: createCalls_def describeCalls_def)

lemma calls_single:
  "createCalls [FetchRootDeviceName a] = 0" "describeCalls [FetchRootDeviceName a] = 0"
  "createCalls [DescribeLaunchConfigurations ns] = 0" "describeCalls [DescribeLaunchConfigurations ns] = 1"
  "createCalls [CreateLaunchConfiguration opts] = 1" "describeCalls [CreateLaunchConfiguration opts] = 0"
  by (simp_all add: createCalls_def describeCalls_def)

lemma calls_replicate_create:
  "createCalls (replicate k (CreateLaunchConfiguration opts)) = k"
  "describeCalls (replicate k (CreateLaunchConfiguration opts)) = 0"
  by (induction k) (simp_all add: createCalls_def describeCalls_def)

lemma flattenEntry_calls:
  "flattenEntry env a p t = (r, t') \<Longrightarrow>
     createCalls t' = createCalls t \<and> describeCalls t' = describeCalls t"
  by (auto simp: flattenEntry_def Let_def calls_append calls_single
      split: option.splits sum.splits)

lemma flattenLoop_calls:
  "flattenLoop env a ps t = (r, t') \<Longrightarrow>
     createCalls t' = createCalls t \<and> describeCalls t' = describeCalls t"
proof (induction ps arbitrary: t r t')
  case Nil
  then show ?case by simp
next
  case (Cons p ps)
  obtain r1 t1 where e: "flattenEntry env a p t = (r1, t1)"
    by (cases "flattenEntry env a p t")
  note c1 = flattenEntry_calls [OF e]
  show ?case
  proof (cases r1)
    case (Inl f)
    with Cons.prems e c1 show ?thesis by simp
  next
    case (Inr m)
    obtain r2 t2 where l: "flattenLoop env a ps t1 = (r2, t2)"
      by (cases "flattenLoop env a ps t1")
    note c2 = Cons.IH [OF l]
    from Cons.prems e Inr l have "t' = t2"
      by (cases r2) simp_all
    with c1 c2 show ?thesis by simp
  qed
qed

lemma flatten_calls:
  "flattenAutoscalingBlockDeviceMappings env ps a t = (r, t') \<Longrightarrow>
     createCalls t' = createCalls t \<and> describeCalls t' = describeCalls t"
  by (auto simp: flattenAutoscalingBlockDeviceMappings_def dest: flattenLoop_calls split: if_splits)

lemma readBlockDevices_calls:
  "readBlockDevicesFromLaunchConfiguration env d lc t = (r, t') \<Longrightarrow>
     createCalls t' = createCalls t \<and> describeCalls t' = describeCalls t"
  by (auto simp: readBlockDevicesFromLaunchConfiguration_def Let_def calls_append calls_single
      split: if_splits sum.splits)

lemma readLCBlockDevices_calls:
  "readLCBlockDevices env d lc t = (r, d', t') \<Longrightarrow>
     createCalls t' = createCalls t \<and> describeCalls t' = describeCalls t"
proof -
  assume a: "readLCBlockDevices env d lc t = (r, d', t')"
  obtain r1 t1 where e: "readBlockDevicesFromLaunchConfiguration env d lc t = (r1, t1)"
    by (cases "readBlockDevicesFromLaunchConfiguration env d lc t")
  note c1 = readBlockDevices_calls [OF e]
  from a e have "t' = t1"
    by (auto simp: readLCBlockDevices_def split: sum.splits prod.splits option.splits)
  with c1 show ?thesis by simp
qed

lemma readLaunchConfiguration_calls:
  "readLaunchConfiguration env lc d t = (r, d', t') \<Longrightarrow>
     createCalls t' = createCalls t \<and> describeCalls t' = describeCalls t"
  by (auto simp: readLaunchConfiguration_def
      dest!: flatten_calls readLCBlockDevices_calls
      split: sum.splits prod.splits option.splits)

lemma Read_calls:
  "resourceAwsLaunchConfigurationRead env d t = (r, d', t') \<Longrightarrow>
     createCalls t' = createCalls t \<and> describeCalls t' = Suc (describeCalls t)"
  by (auto simp: resourceAwsLaunchConfigurationRead_def Let_def calls_append calls_single
      dest!: readLaunchConfiguration_calls
      split: sum.splits list.splits option.splits if_splits)

lemma readAttempt_calls:
  "readAttempt env s = (x, s') \<Longrightarrow>
     createCalls (snd s') = createCalls (snd s) \<and> describeCalls (snd s') = Suc (describeCalls (snd s))"
proof -
  assume a: "readAttempt env s = (x, s')"
  obtain r d1 t1 where e: "resourceAwsLaunchConfigurationRead env (fst s) (snd s) = (r, d1, t1)"
    by (cases "resourceAwsLaunchConfigurationRead env (fst s) (snd s)")
  note c = Read_calls [OF e]
  from a e have "s' = (d1, t1)"
    by (auto simp: readAttempt_def split: sum.splits failure.splits)
  with c show ?thesis by simp
qed

lemma Retry_read_calls:
  "Retry n (readAttempt env) s = (r, s') \<Longrightarrow>
     createCalls (snd s') = createCalls (snd s)
     \<and> (\<exists>k. 1 \<le> k \<and> k \<le> Suc n \<and> describeCalls (snd s') = describeCalls (snd s) + k)"
proof (induction n arbitrary: s)
  case 0
  obtain x s1 where e: "readAttempt env s = (x, s1)" by (cases "readAttempt env s")
  note c = readAttempt_calls [OF e]
  from "0.prems" e have "s' = s1"
    by (auto split: sum.splits option.splits RetryError.splits)
  with c show ?case by (intro conjI exI [of _ 1]) simp_all
next
  case (Suc n)
  obtain x s1 where e: "readAttempt env s = (x, s1)" by (cases "readAttempt env s")
  note c = readAttempt_calls [OF e]
  show ?case
  proof (cases "\<exists>err. x = Inr (Some (RetryableError err))")
    case True
    with Suc.prems e have "Retry n (readAttempt env) s1 = (r, s')" by auto
    from Suc.IH [OF this] obtain k where k: "1 \<le> k" "k \<le> Suc n"
        "describeCalls (snd s') = describeCalls (snd s1) + k"
        and cc: "createCalls (snd s') = createCalls (snd s1)"
      by blast
    with c show ?thesis by (intro conjI exI [of _ "Suc k"]) simp_all
  next
    case False
    with Suc.prems e have "s' = s1"
      by (auto split: sum.splits option.splits RetryError.splits)
    with c show ?thesis by (intro conjI exI [of _ 1]) simp_all
  qed
qed

lemma Create_after_request:
  "createRequest env d tr = (Inr (opts, lcName), tr1) \<Longrightarrow>
     resourceAwsLaunchConfigurationCreate env d tr =
       (case Retry (attemptsWithin env 90) (createAttempt env opts) tr1 of
          (Inl (Failed err), tr2) \<Rightarrow> (Inl (Failed (ErrorCreating err)), d, tr2)
        | (Inl (Panic p), tr2) \<Rightarrow> (Inl (Panic p), d, tr2)
        | (Inr u, tr2) \<Rightarrow>
            Retry (attemptsWithin env 30) (readAttempt env) (d_SetId lcName d, tr2))"
  by (simp add: resourceAwsLaunchConfigurationCreate_def)

lemma Create_bounded:
  assumes q: "createRequest env d tr = (Inr (opts, lcName), tr1)"
  shows "\<exists>res d' tr' k. resourceAwsLaunchConfigurationCreate env d tr = (res, d', tr')
           \<and> 1 \<le> k \<and> k \<le> Suc (attemptsWithin env 90)
           \<and> createCalls tr' = createCalls tr1 + k
           \<and> describeCalls tr' \<le> describeCalls tr1 + Suc (attemptsWithin env 30)"
proof -
  obtain r2 t2 where r: "Retry (attemptsWithin env 90) (createAttempt env opts) tr1 = (r2, t2)"
    by (cases "Retry (attemptsWithin env 90) (createAttempt env opts) tr1")
  from Retry_create_trace [OF r] obtain k where k: "1 \<le> k" "k \<le> Suc (attemptsWithin env 90)"
      "t2 = tr1 @ replicate k (CreateLaunchConfiguration opts)"
    by blast
  then have c2: "createCalls t2 = createCalls tr1 + k" "describeCalls t2 = describeCalls tr1"
    by (simp_all add: calls_append calls_replicate_create)
  show ?thesis
  proof (cases r2)
    case (Inl f)
    then have "resourceAwsLaunchConfigurationCreate env d tr
                 = (case f of Failed err \<Rightarrow> Inl (Failed (ErrorCreating err)) | Panic p \<Rightarrow> Inl (Panic p), d, t2)"
      using r by (simp add: Create_after_request [OF q] split: failure.splits)
    with k c2 show ?thesis by auto
  next
    case (Inr u)
    obtain res d' tr' where b: "Retry (attemptsWithin env 30) (readAttempt env) (d_SetId lcName d, t2)
        = (res, d', tr')"
      by (cases "Retry (attemptsWithin env 30) (readAttempt env) (d_SetId lcName d, t2)")
    from Retry_read_calls [OF b] obtain m where m: "createCalls tr' = createCalls t2"
        "m \<le> Suc (attemptsWithin env 30)" "describeCalls tr' = describeCalls t2 + m"
      by auto
    from Inr r b have "resourceAwsLaunchConfigurationCreate env d tr = (res, d', tr')"
      by (simp add: Create_after_request [OF q])
    with k c2 m show ?thesis by auto
  qed
qed

lemma Create_aborts:
  assumes q: "createRequest env d tr = (Inr (opts, lcName), tr1)"
    and k: "k \<le> attemptsWithin env 90"
    and e: "\<forall>j<k. \<exists>e. remoteCreate env (tr1 @ replicate j (CreateLaunchConfiguration opts)) opts = Some e
                  \<and> retryableCreateError env e"
    and l: "remoteCreate env (tr1 @ replicate k (CreateLaunchConfiguration opts)) opts = Some err"
      "\<not> retryableCreateError env err"
  shows "resourceAwsLaunchConfigurationCreate env d tr
           = (Inl (Failed (ErrorCreating err)), d,
              tr1 @ replicate (Suc k) (CreateLaunchConfiguration opts))"
proof -
  have "Retry (attemptsWithin env 90) (createAttempt env opts) tr1
          = (Inl (Failed err), (tr1 @ replicate k (CreateLaunchConfiguration opts))
               @ [CreateLaunchConfiguration opts])"
    using l by (simp add: Retry_create_skip [OF k e] Retry_create_last [where n = "attemptsWithin env 90 - k"])
  then show ?thesis
    by (simp add: Create_after_request [OF q] replicate_append_same)
qed

lemma Create_reads_back:
  assumes q: "createRequest env d tr = (Inr (opts, lcName), tr1)"
    and k: "k \<le> attemptsWithin env 90"
    and e: "\<forall>j<k. \<exists>e. remoteCreate env (tr1 @ replicate j (CreateLaunchConfiguration opts)) opts = Some e
                  \<and> retryableCreateError env e"
    and l: "remoteCreate env (tr1 @ replicate k (CreateLaunchConfiguration opts)) opts = None"
  shows "resourceAwsLaunchConfigurationCreate env d tr
           = Retry (attemptsWithin env 30) (readAttempt env)
               (d_SetId lcName d, tr1 @ replicate (Suc k) (CreateLaunchConfiguration opts))
         \<and> (\<exists>res d' tr' m. resourceAwsLaunchConfigurationCreate env d tr = (res, d', tr')
               \<and> 1 \<le> m \<and> m \<le> Suc (attemptsWithin env 30)
               \<and> describeCalls tr' = describeCalls tr1 + m
               \<and> createCalls tr' = createCalls tr1 + Suc k)"
proof -
  have "Retry (attemptsWithin env 90) (createAttempt env opts) tr1
          = (Inr (), (tr1 @ replicate k (CreateLaunchConfiguration opts))
               @ [CreateLaunchConfiguration opts])"
    using l by (simp add: Retry_create_skip [OF k e] Retry_create_last [where n = "attemptsWithin env 90 - k"])
  then have c: "resourceAwsLaunchConfigurationCreate env d tr
           = Retry (attemptsWithin env 30) (readAttempt env)
               (d_SetId lcName d, tr1 @ replicate (Suc k) (CreateLaunchConfiguration opts))"
    by (simp add: Create_after_request [OF q] replicate_append_same)
  obtain res d' tr' where b: "Retry (attemptsWithin env 30) (readAttempt env)
               (d_SetId lcName d, tr1 @ replicate (Suc k) (CreateLaunchConfiguration opts)) = (res, d', tr')"
    by (cases "Retry (attemptsWithin env 30) (readAttempt env)
               (d_SetId lcName d, tr1 @ replicate (Suc k) (CreateLaunchConfiguration opts))")
  from Retry_read_calls [OF b] obtain m where m: "1 \<le> m" "m \<le> Suc (attemptsWithin env 30)"
      "createCalls tr' = createCalls (tr1 @ replicate (Suc k) (CreateLaunchConfiguration opts))"
      "describeCalls tr' = describeCalls (tr1 @ replicate (Suc k) (CreateLaunchConfiguration opts)) + m"
    by auto
  from m(3,4) have "createCalls tr' = createCalls tr1 + Suc k" "describeCalls tr' = describeCalls tr1 + m"
    by (simp_all add: calls_append calls_replicate_create del: replicate.simps)
  with c b m(1,2) show ?thesis by auto
qed

lemma Create_gives_up:
  assumes q: "createRequest env d tr = (Inr (opts, lcName), tr1)"
    and e: "\<forall>j\<le>attemptsWithin env 90.
              \<exists>e. remoteCreate env (tr1 @ replicate j (CreateLaunchConfiguration opts)) opts = Some e
                  \<and> retryableCreateError env e"
  shows "\<exists>err. remoteCreate env (tr1 @ replicate (attemptsWithin env 90) (CreateLaunchConfiguration opts)) opts
                 = Some err
           \<and> resourceAwsLaunchConfigurationCreate env d tr
               = (Inl (Failed (ErrorCreating err)), d,
                  tr1 @ replicate (Suc (attemptsWithin env 90)) (CreateLaunchConfiguration opts))"
proof -
  from e obtain err where l: "remoteCreate env
      (tr1 @ replicate (attemptsWithin env 90) (CreateLaunchConfiguration opts)) opts = Some err"
      "retryableCreateError env err"
    by blast
  from e have e': "\<forall>j<attemptsWithin env 90.
              \<exists>e. remoteCreate env (tr1 @ replicate j (CreateLaunchConfiguration opts)) opts = Some e
                  \<and> retryableCreateError env e"
    by simp
  have "Retry (attemptsWithin env 90) (createAttempt env opts) tr1
          = (Inl (Failed err), (tr1 @ replicate (attemptsWithin env 90) (CreateLaunchConfiguration opts))
               @ [CreateLaunchConfiguration opts])"
    using l by (simp add: Retry_create_skip [OF order_refl e'] createAttempt_classifies)
  then have "resourceAwsLaunchConfigurationCreate env d tr
               = (Inl (Failed (ErrorCreating err)), d,
                  tr1 @ replicate (Suc (attemptsWithin env 90)) (CreateLaunchConfiguration opts))"
    by (simp add: Create_after_request [OF q] replicate_append_same)
  with l show ?thesis by blast
qed

text \<open>
  C5. Once Create has built its request (\<open>createRequest\<close> returned it with the name):
  \<^item> the error of a creation request is retryable when it is one of the two
    \<open>ValidationError\<close> signatures, and non-retryable otherwise;
  \<^item> Create ends, having sent at least one and at most \<open>1 + attemptsWithin env 90\<close>
    creation requests and at most \<open>1 + attemptsWithin env 30\<close> describe requests;
  \<^item> after \<open>k\<close> retryable errors within the window, an error of another kind ends
    Create at once, with that error wrapped in "Error creating launch configuration";
  \<^item> after \<open>k\<close> retryable errors within the window, a request that succeeds is followed
    by the read-back: Read under the second retry, with the identifier set, which makes
    at least one and at most \<open>1 + attemptsWithin env 30\<close> describe requests;
  \<^item> when every request of the window fails with a retryable error, Create ends with the
    last of them, wrapped.
\<close>

theorem create_retries_then_reads_back:
  assumes q: "createRequest env d tr = (Inr (opts, lcName), tr1)"
  shows
    "(\<forall>t err. remoteCreate env t opts = Some err \<longrightarrow>
        fst (createAttempt env opts t)
          = Inr (Some (if retryableCreateError env err then RetryableError err
                       else NonRetryableError err)))
     \<and> (\<exists>res d' tr' k. resourceAwsLaunchConfigurationCreate env d tr = (res, d', tr')
           \<and> 1 \<le> k \<and> k \<le> Suc (attemptsWithin env 90)
           \<and> createCalls tr' = createCalls tr1 + k
           \<and> describeCalls tr' \<le> describeCalls tr1 + Suc (attemptsWithin env 30))
     \<and> (\<forall>k err. k \<le> attemptsWithin env 90
           \<and> (\<forall>j<k. \<exists>e. remoteCreate env (tr1 @ replicate j (CreateLaunchConfiguration opts)) opts = Some e
                         \<and> retryableCreateError env e)
           \<and> remoteCreate env (tr1 @ replicate k (CreateLaunchConfiguration opts)) opts = Some err
           \<and> \<not> retryableCreateError env err \<longrightarrow>
         resourceAwsLaunchConfigurationCreate env d tr
           = (Inl (Failed (ErrorCreating err)), d,
              tr1 @ replicate (Suc k) (CreateLaunchConfiguration opts)))
     \<and> (\<forall>k. k \<le> attemptsWithin env 90
           \<and> (\<forall>j<k. \<exists>e. remoteCreate env (tr1 @ replicate j (CreateLaunchConfiguration opts)) opts = Some e
                         \<and> retryableCreateError env e)
           \<and> remoteCreate env (tr1 @ replicate k (CreateLaunchConfiguration opts)) opts = None \<longrightarrow>
         resourceAwsLaunchConfigurationCreate env d tr
           = Retry (attemptsWithin env 30) (readAttempt env)
               (d_SetId lcName d, tr1 @ replicate (Suc k) (CreateLaunchConfiguration opts))
         \<and> (\<exists>res d' tr' m. resourceAwsLaunchConfigurationCreate env d tr = (res, d', tr')
               \<and> 1 \<le> m \<and> m \<le> Suc (attemptsWithin env 30)
               \<and> describeCalls tr' = describeCalls tr1 + m
               \<and> createCalls tr' = createCalls tr1 + Suc k))
     \<and> ((\<forall>j\<le>attemptsWithin env 90.
            \<exists>e. remoteCreate env (tr1 @ replicate j (CreateLaunchConfiguration opts)) opts = Some e
                \<and> retryableCreateError env e) \<longrightarrow>
         (\<exists>err. remoteCreate env
                  (tr1 @ replicate (attemptsWithin env 90) (CreateLaunchConfiguration opts)) opts = Some err
            \<and> resourceAwsLaunchConfigurationCreate env d tr
                = (Inl (Failed (ErrorCreating err)), d,
                   tr1 @ replicate (Suc (attemptsWithin env 90)) (CreateLaunchConfiguration opts))))"
proof (intro conjI)
  show "\<forall>t err. remoteCreate env t opts = Some err \<longrightarrow>
        fst (createAttempt env opts t)
          = Inr (Some (if retryableCreateError env err then RetryableError err
                       else NonRetryableError err))"
    by (simp add: createAttempt_classifies)
next
  show "\<exists>res d' tr' k. resourceAwsLaunchConfigurationCreate env d tr = (res, d', tr')
           \<and> 1 \<le> k \<and> k \<le> Suc (attemptsWithin env 90)
           \<and> createCalls tr' = createCalls tr1 + k
           \<and> describeCalls tr' \<le> describeCalls tr1 + Suc (attemptsWithin env 30)"
    by (rule Create_bounded [OF q])
next
  show "\<forall>k err. k \<le> attemptsWithin env 90
           \<and> (\<forall>j<k. \<exists>e. remoteCreate env (tr1 @ replicate j (CreateLaunchConfiguration opts)) opts = Some e
                         \<and> retryableCreateError env e)
           \<and> remoteCreate env (tr1 @ replicate k (CreateLaunchConfiguration opts)) opts = Some err
           \<and> \<not> retryableCreateError env err \<longrightarrow>
         resourceAwsLaunchConfigurationCreate env d tr
           = (Inl (Failed (ErrorCreating err)), d,
              tr1 @ replicate (Suc k) (CreateLaunchConfiguration opts))"
    using Create_aborts [OF q] by blast
next
  show "\<forall>k. k \<le> attemptsWithin env 90
           \<and> (\<forall>j<k. \<exists>e. remoteCreate env (tr1 @ replicate j (CreateLaunchConfiguration opts)) opts = Some e
                         \<and> retryableCreateError env e)
           \<and> remoteCreate env (tr1 @ replicate k (CreateLaunchConfiguration opts)) opts = None \<longrightarrow>
         resourceAwsLaunchConfigurationCreate env d tr
           = Retry (attemptsWithin env 30) (readAttempt env)
               (d_SetId lcName d, tr1 @ replicate (Suc k) (CreateLaunchConfiguration opts))
         \<and> (\<exists>res d' tr' m. resourceAwsLaunchConfigurationCreate env d tr = (res, d', tr')
               \<and> 1 \<le> m \<and> m \<le> Suc (attemptsWithin env 30)
               \<and> describeCalls tr' = describeCalls tr1 + m
               \<and> createCalls tr' = createCalls tr1 + Suc k)"
    using Create_reads_back [OF q] by blast
next
  show "(\<forall>j\<le>attemptsWithin env 90.
            \<exists>e. remoteCreate env (tr1 @ replicate j (CreateLaunchConfiguration opts)) opts = Some e
                \<and> retryableCreateError env e) \<longrightarrow>
         (\<exists>err. remoteCreate env
                  (tr1 @ replicate (attemptsWithin env 90) (CreateLaunchConfiguration opts)) opts = Some err
            \<and> resourceAwsLaunchConfigurationCreate env d tr
                = (Inl (Failed (ErrorCreating err)), d,
                   tr1 @ replicate (Suc (attemptsWithin env 90)) (CreateLaunchConfiguration opts)))"
    using Create_gives_up [OF q] by blast
qed

lemma namedConfig_request:
  "createRequest (exampleEnv\<lparr>remoteCreate := rc\<rparr>) namedConfig []
     = (Inr (namedRequest, ''lc-1''), [FetchRootDeviceName ''ami-1''])"
  by (simp add: createRequest_def createLaunchConfigurationOpts_def createBlockDeviceMappings_def
      deprecatedBlockDevices_def launchConfigurationName_def namedConfig_def namedRequest_def
      exampleEnv_def d_Get_def d_GetOk_def isZero_def zeroValue_def resourceSchema_def
      getOkString_def getOkBool_def getOkStringSet_def andThen_def assertString_def
      assertBool_def assertSetList_def)

theorem create_retries_then_reads_back_witness:
  "fst (createAttempt profileNotReady namedRequest [])
     = Inr (Some (RetryableError (AwsErr ''ValidationError'' ''Invalid IamInstanceProfile: web'')))
   \<and> resourceAwsLaunchConfigurationCreate nameTaken namedConfig []
     = (Inl (Failed (ErrorCreating
               (AwsErr ''AlreadyExists'' ''Launch Configuration by this name already exists''))),
        namedConfig,
        [FetchRootDeviceName ''ami-1'', CreateLaunchConfiguration namedRequest])
   \<and> resourceAwsLaunchConfigurationCreate profileNotReady namedConfig []
     = Retry 30 (readAttempt profileNotReady)
         (d_SetId ''lc-1'' namedConfig,
          [FetchRootDeviceName ''ami-1'', CreateLaunchConfiguration namedRequest,
           CreateLaunchConfiguration namedRequest])"
proof -
  have q1: "createRequest profileNotReady namedConfig []
              = (Inr (namedRequest, ''lc-1''), [FetchRootDeviceName ''ami-1''])"
    unfolding profileNotReady_def by (rule namedConfig_request)
  have q2: "createRequest nameTaken namedConfig []
              = (Inr (namedRequest, ''lc-1''), [FetchRootDeviceName ''ami-1''])"
    unfolding nameTaken_def by (rule namedConfig_request)
  have r1: "remoteCreate profileNotReady t namedRequest
              = (if createCalls t = 0
                 then Some (AwsErr ''ValidationError'' ''Invalid IamInstanceProfile: web'') else None)" for t
    by (simp add: profileNotReady_def exampleEnv_def)
  have r2: "remoteCreate nameTaken t namedRequest
              = Some (AwsErr ''AlreadyExists'' ''Launch Configuration by this name already exists'')" for t
    by (simp add: nameTaken_def exampleEnv_def)
  have s1: "retryableCreateError profileNotReady
              (AwsErr ''ValidationError'' ''Invalid IamInstanceProfile: web'')"
    by (simp add: retryableCreateError_def profileNotReady_def exampleEnv_def)
  have s2: "\<not> retryableCreateError nameTaken
              (AwsErr ''AlreadyExists'' ''Launch Configuration by this name already exists'')"
    by (simp add: retryableCreateError_def nameTaken_def exampleEnv_def)
  have w: "attemptsWithin profileNotReady 90 = 90" "attemptsWithin profileNotReady 30 = 30"
    "attemptsWithin nameTaken 90 = 90"
    by (simp_all add: profileNotReady_def nameTaken_def exampleEnv_def)
  have c: "createCalls [] = 0" "createCalls [FetchRootDeviceName ''ami-1''] = 0"
    "createCalls [FetchRootDeviceName ''ami-1'', CreateLaunchConfiguration namedRequest] = 1"
    by (simp_all add: createCalls_def)
  have a: "fst (createAttempt profileNotReady namedRequest [])
     = Inr (Some (RetryableError (AwsErr ''ValidationError'' ''Invalid IamInstanceProfile: web'')))"
    using create_retries_then_reads_back [OF q1, THEN conjunct1, rule_format,
        of "[]" "AwsErr ''ValidationError'' ''Invalid IamInstanceProfile: web''"]
    by (simp add: r1 c s1)
  have b: "resourceAwsLaunchConfigurationCreate nameTaken namedConfig []
     = (Inl (Failed (ErrorCreating
               (AwsErr ''AlreadyExists'' ''Launch Configuration by this name already exists''))),
        namedConfig,
        [FetchRootDeviceName ''ami-1'', CreateLaunchConfiguration namedRequest])"
    using create_retries_then_reads_back [OF q2, THEN conjunct2, THEN conjunct2, THEN conjunct1,
        rule_format, of 0 "AwsErr ''AlreadyExists'' ''Launch Configuration by this name already exists''"]
    by (simp add: r2 s2 w)
  have d: "resourceAwsLaunchConfigurationCreate profileNotReady namedConfig []
     = Retry 30 (readAttempt profileNotReady)
         (d_SetId ''lc-1'' namedConfig,
          [FetchRootDeviceName ''ami-1'', CreateLaunchConfiguration namedRequest,
           CreateLaunchConfiguration namedRequest])"
    using create_retries_then_reads_back [OF q1, THEN conjunct2, THEN conjunct2, THEN conjunct2,
        THEN conjunct1, rule_format, of "Suc 0"]
    by (simp add: r1 c s1 w)
  from a b d show ?thesis by simp
qed

end
